theory Spec2Isabelle
  imports Complex_Main
begin

section \<open>Numeric and symbolic values\<close>

text \<open>
  Bounds are numpy floats.  Only the comparison against the infinities matters to the
  wrapper, so a float is an infinity, a NaN or a finite real.
\<close>

datatype npfloat = NegInf | Finite real | PosInf | NaN

text \<open>numpy's \<open>!=\<close>: a NaN differs from everything, itself included.\<close>

definition np_ne :: "npfloat \<Rightarrow> npfloat \<Rightarrow> bool" where
  "np_ne a b = (if a = NaN then True else if b = NaN then True else a \<noteq> b)"

text \<open>numpy's \<open>>\<close>: false whenever a NaN is involved.\<close>

fun np_gt :: "npfloat \<Rightarrow> npfloat \<Rightarrow> bool" where
  "np_gt NaN _ = False"
| "np_gt _ NaN = False"
| "np_gt NegInf _ = False"
| "np_gt _ PosInf = False"
| "np_gt PosInf _ = True"
| "np_gt (Finite a) NegInf = True"
| "np_gt (Finite a) (Finite b) = (b < a)"

text \<open>
  A symbol of the symbolic backend is identified by the kind of entity it was created
  for, the entity's name and the position inside the flattened entity.
\<close>

datatype symkind = Var | Par | LamLb | LamUb | LamG | LamH

datatype expr =
    Sym symkind string nat
  | Const npfloat
  | Add expr expr
  | Sub expr expr
  | Mul expr expr

text \<open>
  Numeric evaluation belongs to the backend: its arithmetic is a parameter, so nothing
  below depends on how the backend rounds.
\<close>

record 'v numeric =
  of_float :: "npfloat \<Rightarrow> 'v"
  plus_op :: "'v \<Rightarrow> 'v \<Rightarrow> 'v"
  minus_op :: "'v \<Rightarrow> 'v \<Rightarrow> 'v"
  times_op :: "'v \<Rightarrow> 'v \<Rightarrow> 'v"

fun subsevalf :: "'v numeric \<Rightarrow> (symkind \<Rightarrow> string \<Rightarrow> nat \<Rightarrow> 'v) \<Rightarrow> expr \<Rightarrow> 'v" where
  "subsevalf A env (Sym k n i) = env k n i"
| "subsevalf A env (Const c) = of_float A c"
| "subsevalf A env (Add a b) = plus_op A (subsevalf A env a) (subsevalf A env b)"
| "subsevalf A env (Sub a b) = minus_op A (subsevalf A env a) (subsevalf A env b)"
| "subsevalf A env (Mul a b) = times_op A (subsevalf A env a) (subsevalf A env b)"

text \<open>An arithmetic on \<open>npfloat\<close> itself (IEEE rules for infinities and NaN, no rounding).\<close>

fun f_neg :: "npfloat \<Rightarrow> npfloat" where
  "f_neg NegInf = PosInf"
| "f_neg PosInf = NegInf"
| "f_neg (Finite a) = Finite (- a)"
| "f_neg NaN = NaN"

fun f_add :: "npfloat \<Rightarrow> npfloat \<Rightarrow> npfloat" where
  "f_add NaN _ = NaN"
| "f_add _ NaN = NaN"
| "f_add NegInf PosInf = NaN"
| "f_add PosInf NegInf = NaN"
| "f_add NegInf _ = NegInf"
| "f_add _ NegInf = NegInf"
| "f_add PosInf _ = PosInf"
| "f_add _ PosInf = PosInf"
| "f_add (Finite a) (Finite b) = Finite (a + b)"

fun f_mul :: "npfloat \<Rightarrow> npfloat \<Rightarrow> npfloat" where
  "f_mul NaN _ = NaN"
| "f_mul _ NaN = NaN"
| "f_mul (Finite a) (Finite b) = Finite (a * b)"
| "f_mul (Finite a) PosInf = (if a = 0 then NaN else if 0 < a then PosInf else NegInf)"
| "f_mul (Finite a) NegInf = (if a = 0 then NaN else if 0 < a then NegInf else PosInf)"
| "f_mul PosInf (Finite b) = (if b = 0 then NaN else if 0 < b then PosInf else NegInf)"
| "f_mul NegInf (Finite b) = (if b = 0 then NaN else if 0 < b then NegInf else PosInf)"
| "f_mul PosInf PosInf = PosInf"
| "f_mul NegInf NegInf = PosInf"
| "f_mul PosInf NegInf = NegInf"
| "f_mul NegInf PosInf = NegInf"

definition float_numeric :: "npfloat numeric" where
  "float_numeric = \<lparr> of_float = (\<lambda>c. c), plus_op = f_add,
     minus_op = (\<lambda>a b. f_add a (f_neg b)), times_op = f_mul \<rparr>"

section \<open>Errors\<close>

text \<open>
  The exceptions of the Python code (\<open>NameError\<close>, \<open>IndexError\<close>, \<open>TypeError\<close>,
  \<open>RuntimeError\<close>) and the error taxonomy of the specification for the NLP class.
\<close>

datatype error =
    NameError
  | IndexError
  | TypeError
  | RuntimeError
  | NamingConflict
  | ValidationError
  | UnsupportedOperator
  | PreconditionError

definition ebind :: "error + 'a \<Rightarrow> ('a \<Rightarrow> error + 'b) \<Rightarrow> error + 'b" where
  "ebind m k = (case m of Inl e \<Rightarrow> Inl e | Inr v \<Rightarrow> k v)"

section \<open>Array primitives of numpy and of the symbolic backend\<close>

text \<open>\<open>np.where(a != v)[0]\<close>: the positions that differ from \<open>v\<close>, ascending.\<close>

definition np_where_ne :: "npfloat list \<Rightarrow> npfloat \<Rightarrow> nat list" where
  "np_where_ne a v = filter (\<lambda>i. np_ne (a ! i) v) [0..<length a]"

definition np_arange :: "nat \<Rightarrow> nat list" where
  "np_arange n = [0..<n]"

text \<open>\<open>a[idx, None]\<close> on a one-dimensional array: IndexError on a position out of range.\<close>

definition np_take :: "'a list \<Rightarrow> nat list \<Rightarrow> error + 'a list" where
  "np_take a idx =
     (if list_all (\<lambda>i. i < length a) idx then Inr (map (\<lambda>i. a ! i) idx) else Inl IndexError)"

text \<open>
  A matrix of the symbolic backend: its shape (rows, columns) and its entries.  The
  stacked vectors of the NLP are columns; \<open>cs_column\<close> gives a list of entries that shape.
\<close>

type_synonym cs_matrix = "(nat \<times> nat) \<times> expr list"

definition cs_column :: "expr list \<Rightarrow> cs_matrix" where
  "cs_column xs = ((length xs, 1), xs)"

text \<open>
  \<open>x[idx]\<close> on a symbolic column vector with an array of positions (numpy hands a
  one-dimensional array over as a column).  A position out of range is a RuntimeError.  A
  single position gives a 1x1 matrix.  Otherwise the result has the shape of the array of
  positions, transposed when the indexed vector is also a row, which for a column means
  1x1: on a 1x1 vector an empty array of positions gives a 1x0 matrix, on a longer
  column a 0x1 one.
\<close>

definition cs_take :: "expr list \<Rightarrow> nat list \<Rightarrow> error + cs_matrix" where
  "cs_take a idx =
     (if \<not> list_all (\<lambda>i. i < length a) idx then Inl RuntimeError
      else if length idx = 1 then Inr ((1, 1), map (\<lambda>i. a ! i) idx)
      else if length a = 1 then Inr ((1, length idx), map (\<lambda>i. a ! i) idx)
      else Inr ((length idx, 1), map (\<lambda>i. a ! i) idx))"

text \<open>
  \<open>a - m\<close> for a numpy array \<open>a\<close> of shape \<open>(k, 1)\<close> and a symbolic matrix \<open>m\<close>, and
  \<open>m - a\<close>: elementwise on equal shapes; a 1x1 operand is spread over the other one;
  any other pair of shapes is a dimension mismatch, a RuntimeError of the backend.
\<close>

definition np_minus_cs :: "npfloat list \<Rightarrow> cs_matrix \<Rightarrow> error + cs_matrix" where
  "np_minus_cs a m =
     (case m of (sh, xs) \<Rightarrow>
        if sh = (length a, 1) then Inr (sh, map2 (\<lambda>l x. Sub (Const l) x) a xs)
        else if sh = (1, 1) then
          (case xs of [] \<Rightarrow> Inl RuntimeError
           | x # rest \<Rightarrow> Inr ((length a, 1), map (\<lambda>l. Sub (Const l) x) a))
        else
          (case a of [l] \<Rightarrow> Inr (sh, map (\<lambda>x. Sub (Const l) x) xs)
           | _ \<Rightarrow> Inl RuntimeError))"

definition cs_minus_np :: "cs_matrix \<Rightarrow> npfloat list \<Rightarrow> error + cs_matrix" where
  "cs_minus_np m a =
     (case m of (sh, xs) \<Rightarrow>
        if sh = (length a, 1) then Inr (sh, map2 (\<lambda>x u. Sub x (Const u)) xs a)
        else if sh = (1, 1) then
          (case xs of [] \<Rightarrow> Inl RuntimeError
           | x # rest \<Rightarrow> Inr ((length a, 1), map (\<lambda>u. Sub x (Const u)) a))
        else
          (case a of [u] \<Rightarrow> Inr (sh, map (\<lambda>x. Sub x (Const u)) xs)
           | _ \<Rightarrow> Inl RuntimeError))"

text \<open>\<open>cs.dot(a, b)\<close>: the sum of the products of the entries; the shapes must agree.\<close>

definition cs_dot :: "cs_matrix \<Rightarrow> cs_matrix \<Rightarrow> error + expr" where
  "cs_dot a b =
     (if fst a \<noteq> fst b then Inl RuntimeError
      else Inr (foldl (\<lambda>acc (p, q). Add acc (Mul p q)) (Const (Finite 0)) (zip (snd a) (snd b))))"

text \<open>\<open>cs.vertcat(*args)\<close>: the blocks, all of one column, on top of each other.\<close>

definition cs_vertcat :: "cs_matrix list \<Rightarrow> error + cs_matrix" where
  "cs_vertcat args =
     (if list_all (\<lambda>m. snd (fst m) = 1) args
      then Inr ((sum_list (map (\<lambda>m. fst (fst m)) args), 1), concat (map snd args))
      else Inl RuntimeError)"

text \<open>\<open>a + b\<close> where \<open>a\<close> may still be \<open>None\<close> (no objective set).\<close>

definition py_add :: "expr option \<Rightarrow> expr \<Rightarrow> error + expr" where
  "py_add a b = (case a of None \<Rightarrow> Inl TypeError | Some f \<Rightarrow> Inr (Add f b))"

section \<open>The wrapped NLP\<close>

text \<open>
  Modelled from the spec: the class \<open>Nlp\<close> (module \<open>casadi_nlp\<close>) is not among the
  sources; only its tests are.  These are the attributes the wrapper reads: the
  registries of variables, parameters and constraints (name and symbol, in declaration
  order), the stacked vectors \<open>_x\<close>, \<open>_lbx\<close>, \<open>_ubx\<close>, \<open>_lam_lbx\<close>, \<open>_lam_ubx\<close>,
  \<open>_p\<close>, \<open>_g\<close>, \<open>_lam_g\<close>, \<open>_h\<close>, \<open>_lam_h\<close>, the objective \<open>_f\<close> (\<open>None\<close> until
  one is set) and whether a solver has been initialised.  Matrices are kept flattened.
\<close>

record Nlp =
  nlp_vars :: "(string \<times> expr list) list"
  nlp_pars :: "(string \<times> expr list) list"
  nlp_cons :: "(string \<times> expr list) list"
  nlp_x :: "expr list"
  nlp_lbx :: "npfloat list"
  nlp_ubx :: "npfloat list"
  nlp_lam_lbx :: "expr list"
  nlp_lam_ubx :: "expr list"
  nlp_p :: "expr list"
  nlp_f :: "expr option"
  nlp_g :: "expr list"
  nlp_lam_g :: "expr list"
  nlp_h :: "expr list"
  nlp_lam_h :: "expr list"
  nlp_solver :: bool

text \<open>Modelled from the spec: a new \<open>Nlp\<close> has nothing declared.\<close>

definition Nlp_init :: Nlp where
  "Nlp_init = \<lparr> nlp_vars = [], nlp_pars = [], nlp_cons = [], nlp_x = [], nlp_lbx = [],
     nlp_ubx = [], nlp_lam_lbx = [], nlp_lam_ubx = [], nlp_p = [], nlp_f = None,
     nlp_g = [], nlp_lam_g = [], nlp_h = [], nlp_lam_h = [], nlp_solver = False \<rparr>"

text \<open>Modelled from the spec: \<open>nx\<close>, \<open>np\<close>, \<open>ng\<close>, \<open>nh\<close> count the scalar elements of a kind.\<close>

definition nlp_nx :: "Nlp \<Rightarrow> nat" where
  "nlp_nx n = length (nlp_x n)"

definition nlp_np :: "Nlp \<Rightarrow> nat" where
  "nlp_np n = length (nlp_p n)"

definition nlp_ng :: "Nlp \<Rightarrow> nat" where
  "nlp_ng n = length (nlp_g n)"

definition nlp_nh :: "Nlp \<Rightarrow> nat" where
  "nlp_nh n = length (nlp_h n)"

text \<open>The symbols of a freshly created entity of \<open>k\<close> scalar elements.\<close>

definition symvec :: "symkind \<Rightarrow> string \<Rightarrow> nat \<Rightarrow> expr list" where
  "symvec kind name k = map (\<lambda>i. Sym kind name i) [0..<k]"

text \<open>A bound argument: a scalar or a (flattened) array, broadcast to the variable.\<close>

datatype array_like = Scalar npfloat | Array "npfloat list"

fun broadcast_to :: "array_like \<Rightarrow> nat \<Rightarrow> npfloat list option" where
  "broadcast_to (Scalar v) k = Some (replicate k v)"
| "broadcast_to (Array vs) k =
     (if length vs = k then Some vs
      else if length vs = 1 then Some (replicate k (hd vs))
      else None)"

text \<open>
  Modelled from the spec: \<open>Nlp.variable(name, shape, lb, ub)\<close> (sections 3, 4.1 and 7).
  The shape defaults to \<open>(1, 1)\<close>, the bounds to minus and plus infinity.  A name
  already registered is a naming conflict; bounds that do not broadcast to the shape or
  a lower bound above its upper bound are validation errors; an error leaves the NLP as
  it was.  On success the variable, its bounds and its two multipliers are appended to
  the stacked vectors, and the symbol and the multipliers are returned.
\<close>

definition Nlp_variable ::
  "Nlp \<Rightarrow> string \<Rightarrow> (nat \<times> nat) option \<Rightarrow> array_like option \<Rightarrow> array_like option
     \<Rightarrow> Nlp \<times> (error + expr list \<times> expr list \<times> expr list)" where
  "Nlp_variable n name shape lb ub =
     (let k = (case shape of None \<Rightarrow> 1 | Some (r, c) \<Rightarrow> r * c) in
      if name \<in> set (map fst (nlp_vars n)) then (n, Inl NamingConflict)
      else
        (case (broadcast_to (case lb of None \<Rightarrow> Scalar NegInf | Some a \<Rightarrow> a) k,
               broadcast_to (case ub of None \<Rightarrow> Scalar PosInf | Some a \<Rightarrow> a) k) of
           (Some lbs, Some ubs) \<Rightarrow>
             if list_ex (\<lambda>(l, u). np_gt l u) (zip lbs ubs) then (n, Inl ValidationError)
             else
               (let var = symvec Var name k;
                    lam_lb = symvec LamLb name k;
                    lam_ub = symvec LamUb name k
                in (n\<lparr> nlp_vars := nlp_vars n @ [(name, var)],
                       nlp_x := nlp_x n @ var,
                       nlp_lbx := nlp_lbx n @ lbs,
                       nlp_ubx := nlp_ubx n @ ubs,
                       nlp_lam_lbx := nlp_lam_lbx n @ lam_lb,
                       nlp_lam_ubx := nlp_lam_ubx n @ lam_ub \<rparr>,
                    Inr (var, lam_lb, lam_ub)))
         | _ \<Rightarrow> (n, Inl ValidationError)))"

text \<open>
  Modelled from the spec: \<open>Nlp.parameter(name, shape)\<close>: a naming conflict on a
  registered name, else the parameter is appended to \<open>p\<close> and its symbol returned.
\<close>

definition Nlp_parameter ::
  "Nlp \<Rightarrow> string \<Rightarrow> (nat \<times> nat) option \<Rightarrow> Nlp \<times> (error + expr list)" where
  "Nlp_parameter n name shape =
     (let k = (case shape of None \<Rightarrow> 1 | Some (r, c) \<Rightarrow> r * c) in
      if name \<in> set (map fst (nlp_pars n)) then (n, Inl NamingConflict)
      else
        (let par = symvec Par name k
         in (n\<lparr> nlp_pars := nlp_pars n @ [(name, par)], nlp_p := nlp_p n @ par \<rparr>, Inr par)))"

text \<open>A side of a constraint: a symbolic expression or plain numbers, flattened.\<close>

datatype operand = Symbolic "expr list" | Numeric "npfloat list"

fun operand_exprs :: "operand \<Rightarrow> expr list" where
  "operand_exprs (Symbolic es) = es"
| "operand_exprs (Numeric vs) = map Const vs"

fun is_symbolic :: "operand \<Rightarrow> bool" where
  "is_symbolic (Symbolic es) = True"
| "is_symbolic (Numeric vs) = False"

text \<open>Both sides brought to one length; a side of one element is repeated.\<close>

definition broadcast_sides :: "expr list \<Rightarrow> expr list \<Rightarrow> (expr list \<times> expr list) option" where
  "broadcast_sides a b =
     (if length a = length b then Some (a, b)
      else if length a = 1 then Some (replicate (length b) (hd a), b)
      else if length b = 1 then Some (a, replicate (length a) (hd b))
      else None)"

text \<open>
  Modelled from the spec: \<open>Nlp.constraint(name, lhs, op, rhs)\<close> (sections 3, 4.1 and 7).
  A registered name is a naming conflict; two sides without a symbol are a type error
  (the test \<open>test_constraint__raises__with_nonsymbolic_terms\<close>); an operator outside
  \<open>==\<close>, \<open><=\<close>, \<open>>=\<close> is unsupported; sides of different shapes are a validation error;
  an error leaves the NLP as it was.  On success an equality joins the group \<open>g\<close>, an
  inequality the group \<open>h\<close> (as \<open>lhs - rhs\<close>, or \<open>rhs - lhs\<close> for \<open>>=\<close>), each with a
  multiplier of the same size, and the expression and the multiplier are returned.
\<close>

definition Nlp_constraint ::
  "Nlp \<Rightarrow> string \<Rightarrow> operand \<Rightarrow> string \<Rightarrow> operand \<Rightarrow> Nlp \<times> (error + expr list \<times> expr list)" where
  "Nlp_constraint n name lhs op rhs =
     (if name \<in> set (map fst (nlp_cons n)) then (n, Inl NamingConflict)
      else if \<not> is_symbolic lhs \<and> \<not> is_symbolic rhs then (n, Inl TypeError)
      else if op \<noteq> ''=='' \<and> op \<noteq> ''<='' \<and> op \<noteq> ''>='' then (n, Inl UnsupportedOperator)
      else
        (case broadcast_sides (operand_exprs lhs) (operand_exprs rhs) of
           None \<Rightarrow> (n, Inl ValidationError)
         | Some (l, r) \<Rightarrow>
             (let e = (if op = ''>='' then map2 Sub r l else map2 Sub l r) in
              if op = ''=='' then
                (let lam = symvec LamG name (length e)
                 in (n\<lparr> nlp_cons := nlp_cons n @ [(name, e)],
                        nlp_g := nlp_g n @ e,
                        nlp_lam_g := nlp_lam_g n @ lam \<rparr>, Inr (e, lam)))
              else
                (let lam = symvec LamH name (length e)
                 in (n\<lparr> nlp_cons := nlp_cons n @ [(name, e)],
                        nlp_h := nlp_h n @ e,
                        nlp_lam_h := nlp_lam_h n @ lam \<rparr>, Inr (e, lam))))))"

text \<open>
  Modelled from the spec: \<open>Nlp.minimize(objective)\<close>: an objective that is not scalar
  is a validation error; otherwise it becomes \<open>_f\<close>.
\<close>

definition Nlp_minimize :: "Nlp \<Rightarrow> expr list \<Rightarrow> Nlp \<times> (error + unit)" where
  "Nlp_minimize n objective =
     (case objective of
        [e] \<Rightarrow> (n\<lparr> nlp_f := Some e \<rparr>, Inr ())
      | _ \<Rightarrow> (n, Inl ValidationError))"

section \<open>The wrapper \<open>DifferentiableNlp\<close>\<close>

text \<open>
  The names bound at module level in \<open>differentiable_nlp.py\<close>: the imports, the list
  \<open>PRIMAL_DUAL_ORDER\<close> and the class.  Only the list has a content that matters here.
\<close>

datatype pyobj = PyStrList "string list" | PyOpaque

definition PRIMAL_DUAL_ORDER :: "string list" where
  "PRIMAL_DUAL_ORDER = [''x'', ''g'', ''h'', ''h_lbx'', ''h_ubx'']"

definition module_globals :: "(string \<times> pyobj) list" where
  "module_globals =
     [(''Tuple'', PyOpaque), (''Union'', PyOpaque), (''cs'', PyOpaque), (''np'', PyOpaque),
      (''Wrapper'', PyOpaque), (''NlpType'', PyOpaque),
      (''cached_property'', PyOpaque), (''cached_property_reset'', PyOpaque),
      (''PRIMAL_DUAL_ORDER'', PyStrList PRIMAL_DUAL_ORDER),
      (''DifferentiableNlp'', PyOpaque)]"

text \<open>
  The instance: the wrapped NLP, the two flags set by \<open>__init__\<close>, and the instance
  dictionary entries that hold the values of the four cached properties.
\<close>

record DifferentiableNlp =
  nlp :: Nlp
  remove_reduntant_x_bounds :: bool
  include_barrier_term :: bool
  cached_h_lbx :: "(cs_matrix \<times> cs_matrix) option"
  cached_h_ubx :: "(cs_matrix \<times> cs_matrix) option"
  cached_lagrangian :: "expr option"
  cached_primal_dual_variables :: "cs_matrix option"

text \<open>
  \<open>__init__(nlp, simplify_x_bounds=True, include_barrier_term=False)\<close>; an omitted
  argument is \<open>None\<close>.  The base class \<open>Wrapper\<close> keeps the NLP as \<open>self.nlp\<close>.
\<close>

definition DifferentiableNlp_init :: "Nlp \<Rightarrow> bool option \<Rightarrow> bool option \<Rightarrow> DifferentiableNlp" where
  "DifferentiableNlp_init n simplify_x_bounds barrier =
     \<lparr> nlp = n,
       remove_reduntant_x_bounds = (case simplify_x_bounds of None \<Rightarrow> True | Some b \<Rightarrow> b),
       include_barrier_term = (case barrier of None \<Rightarrow> False | Some b \<Rightarrow> b),
       cached_h_lbx = None, cached_h_ubx = None, cached_lagrangian = None,
       cached_primal_dual_variables = None \<rparr>"

text \<open>
  Modelled from the spec: the decorator \<open>cached_property\<close> of \<open>casadi_nlp.util\<close> is not
  among the sources.  The result is memoized (section 4.3): an access returns the stored
  value when there is one, and otherwise runs the body and stores what it returns; a
  body that raises stores nothing.
\<close>

definition cached_property ::
  "(DifferentiableNlp \<Rightarrow> 'a option) \<Rightarrow> ('a \<Rightarrow> DifferentiableNlp \<Rightarrow> DifferentiableNlp)
     \<Rightarrow> (DifferentiableNlp \<Rightarrow> DifferentiableNlp \<times> (error + 'a))
     \<Rightarrow> DifferentiableNlp \<Rightarrow> DifferentiableNlp \<times> (error + 'a)" where
  "cached_property stored store body self =
     (case stored self of
        Some v \<Rightarrow> (self, Inr v)
      | None \<Rightarrow>
          (case body self of
             (s, Inl e) \<Rightarrow> (s, Inl e)
           | (s, Inr v) \<Rightarrow> (store v s, Inr v)))"

subsection \<open>The bound-derived inequalities\<close>

definition h_lbx_body :: "DifferentiableNlp \<Rightarrow> error + cs_matrix \<times> cs_matrix" where
  "h_lbx_body self =
     (let idx = (if remove_reduntant_x_bounds self
                 then np_where_ne (nlp_lbx (nlp self)) NegInf
                 else np_arange (nlp_nx (nlp self)))
      in ebind (np_take (nlp_lbx (nlp self)) idx) (\<lambda>lb.
         ebind (cs_take (nlp_x (nlp self)) idx) (\<lambda>xs.
         ebind (np_minus_cs lb xs) (\<lambda>h.
         ebind (cs_take (nlp_lam_lbx (nlp self)) idx) (\<lambda>lam. Inr (h, lam))))))"

definition h_lbx :: "DifferentiableNlp \<Rightarrow> DifferentiableNlp \<times> (error + cs_matrix \<times> cs_matrix)" where
  "h_lbx = cached_property cached_h_lbx (\<lambda>v s. s\<lparr> cached_h_lbx := Some v \<rparr>)
             (\<lambda>self. (self, h_lbx_body self))"

definition h_ubx_body :: "DifferentiableNlp \<Rightarrow> error + cs_matrix \<times> cs_matrix" where
  "h_ubx_body self =
     (let idx = (if remove_reduntant_x_bounds self
                 then np_where_ne (nlp_ubx (nlp self)) PosInf
                 else np_arange (nlp_nx (nlp self)))
      in ebind (cs_take (nlp_x (nlp self)) idx) (\<lambda>xs.
         ebind (np_take (nlp_ubx (nlp self)) idx) (\<lambda>ub.
         ebind (cs_minus_np xs ub) (\<lambda>h.
         ebind (cs_take (nlp_lam_ubx (nlp self)) idx) (\<lambda>lam. Inr (h, lam))))))"

definition h_ubx :: "DifferentiableNlp \<Rightarrow> DifferentiableNlp \<times> (error + cs_matrix \<times> cs_matrix)" where
  "h_ubx = cached_property cached_h_ubx (\<lambda>v s. s\<lparr> cached_h_ubx := Some v \<rparr>)
             (\<lambda>self. (self, h_ubx_body self))"

subsection \<open>The Lagrangian\<close>

text \<open>
  The body reads the properties \<open>h_lbx\<close> and \<open>h_ubx\<close> (filling their caches), then
  evaluates the sum from left to right.
\<close>

definition lagrangian_body :: "DifferentiableNlp \<Rightarrow> DifferentiableNlp \<times> (error + expr)" where
  "lagrangian_body self =
     (case h_lbx self of
        (s1, Inl e) \<Rightarrow> (s1, Inl e)
      | (s1, Inr (hl, lam_hl)) \<Rightarrow>
          (case h_ubx s1 of
             (s2, Inl e) \<Rightarrow> (s2, Inl e)
           | (s2, Inr (hu, lam_hu)) \<Rightarrow>
               (s2,
                ebind (cs_dot (cs_column (nlp_lam_g (nlp s2))) (cs_column (nlp_g (nlp s2)))) (\<lambda>d1.
                ebind (py_add (nlp_f (nlp s2)) d1) (\<lambda>a1.
                ebind (cs_dot (cs_column (nlp_lam_h (nlp s2))) (cs_column (nlp_h (nlp s2)))) (\<lambda>d2.
                ebind (cs_dot lam_hl hl) (\<lambda>d3.
                ebind (cs_dot lam_hu hu) (\<lambda>d4.
                Inr (Add (Add (Add a1 d2) d3) d4)))))))))"

definition lagrangian :: "DifferentiableNlp \<Rightarrow> DifferentiableNlp \<times> (error + expr)" where
  "lagrangian = cached_property cached_lagrangian (\<lambda>v s. s\<lparr> cached_lagrangian := Some v \<rparr>)
                  lagrangian_body"

subsection \<open>The primal-dual variables\<close>

text \<open>The loop over the order list, \<open>args\<close> being the list built so far.\<close>

fun primal_dual_loop ::
  "string list \<Rightarrow> DifferentiableNlp \<Rightarrow> cs_matrix list
     \<Rightarrow> DifferentiableNlp \<times> (error + cs_matrix list)" where
  "primal_dual_loop [] self args = (self, Inr args)"
| "primal_dual_loop (nm # rest) self args =
     (if nm = ''x'' then primal_dual_loop rest self (args @ [cs_column (nlp_x (nlp self))])
      else if nm = ''g'' then primal_dual_loop rest self (args @ [cs_column (nlp_lam_g (nlp self))])
      else if nm = ''h'' then primal_dual_loop rest self (args @ [cs_column (nlp_lam_h (nlp self))])
      else if nm = ''h_lbx'' then
        (case h_lbx self of
           (s, Inl e) \<Rightarrow> (s, Inl e)
         | (s, Inr (hl, lam)) \<Rightarrow> primal_dual_loop rest s (args @ [lam]))
      else if nm = ''h_ubx'' then
        (case h_ubx self of
           (s, Inl e) \<Rightarrow> (s, Inl e)
         | (s, Inr (hu, lam)) \<Rightarrow> primal_dual_loop rest s (args @ [lam]))
      else (self, Inl RuntimeError))"

text \<open>
  The loop iterates over the global name \<open>_PRIMAL_DUAL_ORDER\<close>, looked up when the body
  runs; a name that is not bound raises \<open>NameError\<close>.
\<close>

definition primal_dual_variables_body ::
  "DifferentiableNlp \<Rightarrow> DifferentiableNlp \<times> (error + cs_matrix)" where
  "primal_dual_variables_body self =
     (case map_of module_globals ''_PRIMAL_DUAL_ORDER'' of
        None \<Rightarrow> (self, Inl NameError)
      | Some PyOpaque \<Rightarrow> (self, Inl TypeError)
      | Some (PyStrList order) \<Rightarrow>
          (case primal_dual_loop order self [] of
             (s, Inl e) \<Rightarrow> (s, Inl e)
           | (s, Inr args) \<Rightarrow> (s, cs_vertcat args)))"

definition primal_dual_variables ::
  "DifferentiableNlp \<Rightarrow> DifferentiableNlp \<times> (error + cs_matrix)" where
  "primal_dual_variables =
     cached_property cached_primal_dual_variables
       (\<lambda>v s. s\<lparr> cached_primal_dual_variables := Some v \<rparr>) primal_dual_variables_body"

subsection \<open>Declarations through the wrapper\<close>

datatype cprop = P_h_lbx | P_h_ubx | P_lagrangian | P_primal_dual_variables

fun del_cached :: "cprop \<Rightarrow> DifferentiableNlp \<Rightarrow> DifferentiableNlp" where
  "del_cached P_h_lbx s = s\<lparr> cached_h_lbx := None \<rparr>"
| "del_cached P_h_ubx s = s\<lparr> cached_h_ubx := None \<rparr>"
| "del_cached P_lagrangian s = s\<lparr> cached_lagrangian := None \<rparr>"
| "del_cached P_primal_dual_variables s = s\<lparr> cached_primal_dual_variables := None \<rparr>"

text \<open>
  Modelled from the spec: the decorator \<open>cached_property_reset\<close> of \<open>casadi_nlp.util\<close>
  is not among the sources.  Every successful declaration invalidates the cached
  artifacts named in the decorator (section 4.1); a failed one commits nothing
  (section 7).
\<close>

definition cached_property_reset ::
  "cprop list \<Rightarrow> (DifferentiableNlp \<Rightarrow> DifferentiableNlp \<times> (error + 'a))
     \<Rightarrow> DifferentiableNlp \<Rightarrow> DifferentiableNlp \<times> (error + 'a)" where
  "cached_property_reset props func self =
     (case func self of
        (s, Inl e) \<Rightarrow> (s, Inl e)
      | (s, Inr r) \<Rightarrow> (foldr del_cached props s, Inr r))"

definition variable ::
  "DifferentiableNlp \<Rightarrow> string \<Rightarrow> (nat \<times> nat) option \<Rightarrow> array_like option \<Rightarrow> array_like option
     \<Rightarrow> DifferentiableNlp \<times> (error + expr list \<times> expr list \<times> expr list)" where
  "variable self name shape lb ub =
     cached_property_reset [P_h_lbx, P_h_ubx, P_lagrangian, P_primal_dual_variables]
       (\<lambda>s. case Nlp_variable (nlp s) name shape lb ub of (n, r) \<Rightarrow> (s\<lparr> nlp := n \<rparr>, r)) self"

definition constraint ::
  "DifferentiableNlp \<Rightarrow> string \<Rightarrow> operand \<Rightarrow> string \<Rightarrow> operand
     \<Rightarrow> DifferentiableNlp \<times> (error + expr list \<times> expr list)" where
  "constraint self name lhs op rhs =
     cached_property_reset [P_lagrangian, P_primal_dual_variables]
       (\<lambda>s. case Nlp_constraint (nlp s) name lhs op rhs of (n, r) \<Rightarrow> (s\<lparr> nlp := n \<rparr>, r)) self"

definition minimize :: "DifferentiableNlp \<Rightarrow> expr list \<Rightarrow> DifferentiableNlp \<times> (error + unit)" where
  "minimize self objective =
     cached_property_reset [P_lagrangian]
       (\<lambda>s. case Nlp_minimize (nlp s) objective of (n, r) \<Rightarrow> (s\<lparr> nlp := n \<rparr>, r)) self"

subsection \<open>Sequences of calls\<close>

text \<open>
  What a caller can do with a wrapper: declare through it, set the objective, and read
  the four properties.  \<open>run\<close> performs a sequence of such calls, going on after a call
  that raised (the caller caught the exception).
\<close>

datatype action =
    DeclVariable string "(nat \<times> nat) option" "array_like option" "array_like option"
  | DeclConstraint string operand string operand
  | SetObjective "expr list"
  | ReadHlbx
  | ReadHubx
  | ReadLagrangian
  | ReadPrimalDual

fun perform :: "DifferentiableNlp \<Rightarrow> action \<Rightarrow> DifferentiableNlp" where
  "perform w (DeclVariable name shape lb ub) = fst (variable w name shape lb ub)"
| "perform w (DeclConstraint name lhs op rhs) = fst (constraint w name lhs op rhs)"
| "perform w (SetObjective e) = fst (minimize w e)"
| "perform w ReadHlbx = fst (h_lbx w)"
| "perform w ReadHubx = fst (h_ubx w)"
| "perform w ReadLagrangian = fst (lagrangian w)"
| "perform w ReadPrimalDual = fst (primal_dual_variables w)"

definition run :: "DifferentiableNlp \<Rightarrow> action list \<Rightarrow> DifferentiableNlp" where
  "run w acts = foldl perform w acts"

section \<open>Invariants\<close>

text \<open>
  Modelled from the spec: what holds of every \<open>Nlp\<close> (sections 3 and 8): the bounds and
  the bound multipliers have one entry per scalar variable, every constraint has a
  multiplier of its size, and the stacked vector of the variables is as long as the sum
  of the sizes of the registered variables.
\<close>

definition Nlp_wf :: "Nlp \<Rightarrow> bool" where
  "Nlp_wf n =
     (length (nlp_lbx n) = length (nlp_x n) \<and> length (nlp_ubx n) = length (nlp_x n) \<and>
      length (nlp_lam_lbx n) = length (nlp_x n) \<and> length (nlp_lam_ubx n) = length (nlp_x n) \<and>
      length (nlp_lam_g n) = length (nlp_g n) \<and> length (nlp_lam_h n) = length (nlp_h n) \<and>
      length (nlp_x n) = sum_list (map (\<lambda>(name, s). length s) (nlp_vars n)))"

text \<open>
  The Lagrangian computed from bound terms that are computed afresh; the value a valid
  cache of the property \<open>lagrangian\<close> holds.
\<close>

definition lagrangian_fresh :: "DifferentiableNlp \<Rightarrow> error + expr" where
  "lagrangian_fresh self =
     ebind (h_lbx_body self) (\<lambda>(hl, lam_hl).
     ebind (h_ubx_body self) (\<lambda>(hu, lam_hu).
     ebind (cs_dot (cs_column (nlp_lam_g (nlp self))) (cs_column (nlp_g (nlp self)))) (\<lambda>d1.
     ebind (py_add (nlp_f (nlp self)) d1) (\<lambda>a1.
     ebind (cs_dot (cs_column (nlp_lam_h (nlp self))) (cs_column (nlp_h (nlp self)))) (\<lambda>d2.
     ebind (cs_dot lam_hl hl) (\<lambda>d3.
     ebind (cs_dot lam_hu hu) (\<lambda>d4.
     Inr (Add (Add (Add a1 d2) d3) d4))))))))"

text \<open>
  A stored value of a cached property is the value its body would compute now; the
  primal-dual vector is never stored, as its body never returns.
\<close>

definition caches_valid :: "DifferentiableNlp \<Rightarrow> bool" where
  "caches_valid w =
     ((case cached_h_lbx w of None \<Rightarrow> True | Some v \<Rightarrow> h_lbx_body w = Inr v) \<and>
      (case cached_h_ubx w of None \<Rightarrow> True | Some v \<Rightarrow> h_ubx_body w = Inr v) \<and>
      (case cached_lagrangian w of None \<Rightarrow> True | Some v \<Rightarrow> lagrangian_fresh w = Inr v) \<and>
      cached_primal_dual_variables w = None)"

section \<open>Example scenarios\<close>

text \<open>
  The declarations of the test \<open>test_h_lbx_ubx__returns_correct_indices\<close>: a variable
  without bounds, one with a lower bound and one with an upper bound.
\<close>

definition ex_decls :: "action list" where
  "ex_decls =
     [DeclVariable ''x1'' (Some (2, 1)) None None,
      DeclVariable ''x2'' (Some (2, 1)) (Some (Scalar (Finite 0))) None,
      DeclVariable ''x3'' (Some (1, 1)) None (Some (Scalar (Finite 1)))]"

text \<open>A bounded problem with one inequality and an objective (example 5 of the tests).\<close>

definition ex_objective :: "action list" where
  "ex_objective =
     [DeclVariable ''x'' (Some (2, 1)) (Some (Scalar (Finite 0))) None,
      DeclConstraint ''c1'' (Symbolic [Add (Sym Var ''x'' 0) (Mul (Sym Var ''x'' 1) (Sym Var ''x'' 1))])
        ''<='' (Numeric [Finite 2]),
      SetObjective [Mul (Sym Var ''x'' 0) (Sym Var ''x'' 1)]]"

text \<open>The example after its Lagrangian has been read: three caches are filled.\<close>

definition ex_cached :: DifferentiableNlp where
  "ex_cached = run (DifferentiableNlp_init Nlp_init None None) (ex_objective @ [ReadLagrangian])"

text \<open>
  A wrapper over an NLP whose only variable is one scalar without bounds (the call
  \<open>variable('x')\<close> with every default), and the same with the scalar as objective.
\<close>

definition ex_declared :: DifferentiableNlp where
  "ex_declared = fst (variable (DifferentiableNlp_init Nlp_init None None) ''x'' None None None)"

definition ex_single_objective :: DifferentiableNlp where
  "ex_single_objective =
     run (DifferentiableNlp_init Nlp_init None None)
       [DeclVariable ''x'' None None None, SetObjective [Sym Var ''x'' 0]]"

text \<open>
  A wrapper with one unbounded variable of two rows, then the same after \<open>h_lbx\<close> has
  been read, then with the flag switched off by an assignment to the attribute.
\<close>

definition ex_pair_declared :: DifferentiableNlp where
  "ex_pair_declared =
     fst (variable (DifferentiableNlp_init Nlp_init None None) ''x'' (Some (2, 1)) None None)"

definition ex_unbounded :: DifferentiableNlp where
  "ex_unbounded = fst (h_lbx ex_pair_declared)"

text \<open>
  The flag \<open>remove_reduntant_x_bounds\<close> is a plain attribute of the instance: changing it
  is an assignment.
\<close>

definition set_remove_reduntant_x_bounds :: "DifferentiableNlp \<Rightarrow> bool \<Rightarrow> DifferentiableNlp" where
  "set_remove_reduntant_x_bounds self v = self\<lparr> remove_reduntant_x_bounds := v \<rparr>"

definition ex_flag_changed :: DifferentiableNlp where
  "ex_flag_changed = set_remove_reduntant_x_bounds ex_unbounded False"

section \<open>Solving\<close>

text \<open>
  Modelled from the spec: \<open>init_solver\<close>, \<open>solve\<close> and the class \<open>Solution\<close> are not among
  the sources (section 4.5).  The external solver is a parameter: given the NLP and the
  stacked parameter values it returns the success flag, the optimal objective and the
  assignment of the primal, dual and parameter symbols recorded at solve time.
\<close>

definition Nlp_init_solver :: "Nlp \<Rightarrow> Nlp" where
  "Nlp_init_solver n = n\<lparr> nlp_solver := True \<rparr>"

text \<open>
  Modelled from the spec: a \<open>Solution\<close> keeps the success flag, the optimal objective, the
  registry of the variables of the problem it solved, and the recorded assignment.
\<close>

record 'v Solution =
  sol_success :: bool
  sol_f :: 'v
  sol_vars :: "(string \<times> expr list) list"
  sol_assignment :: "symkind \<Rightarrow> string \<Rightarrow> nat \<Rightarrow> 'v"

text \<open>
  Modelled from the spec: \<open>solve\<close> fails with a precondition error when no solver was
  initialised or a declared parameter has no value; otherwise it stacks the parameter
  values in declaration order, calls the solver and packages the result.
\<close>

definition Nlp_solve ::
  "(Nlp \<Rightarrow> 'v list \<Rightarrow> bool \<times> 'v \<times> (symkind \<Rightarrow> string \<Rightarrow> nat \<Rightarrow> 'v))
     \<Rightarrow> Nlp \<Rightarrow> (string \<times> 'v list) list \<Rightarrow> error + 'v Solution" where
  "Nlp_solve solver n pars =
     (if \<not> nlp_solver n then Inl PreconditionError
      else if list_ex (\<lambda>(name, s). map_of pars name = None) (nlp_pars n) then Inl PreconditionError
      else
        (let p = concat (map (\<lambda>(name, s). case map_of pars name of None \<Rightarrow> [] | Some v \<Rightarrow> v)
                           (nlp_pars n))
         in case solver n p of
              (ok, fval, assignment) \<Rightarrow>
                Inr \<lparr> sol_success = ok, sol_f = fval, sol_vars = nlp_vars n,
                      sol_assignment = assignment \<rparr>))"

text \<open>
  Modelled from the spec: \<open>Solution.value(expression)\<close> substitutes the recorded
  assignment; \<open>Solution.vals\<close> maps the name of each variable of the registry to the
  value of its symbol, computed by the same substitution.
\<close>

definition Solution_value :: "'v numeric \<Rightarrow> 'v Solution \<Rightarrow> expr list \<Rightarrow> 'v list" where
  "Solution_value A sol e = map (subsevalf A (sol_assignment sol)) e"

definition Solution_vals :: "'v numeric \<Rightarrow> 'v Solution \<Rightarrow> (string \<times> 'v list) list" where
  "Solution_vals A sol = map (\<lambda>(name, s). (name, Solution_value A sol s)) (sol_vars sol)"

text \<open>
  An NLP with a variable, a parameter and a constraint that are all called \<open>a\<close>; a solver
  that sets every symbol to one; and the solution it gives on the example.
\<close>

definition ex_registered :: Nlp where
  "ex_registered =
     fst (Nlp_constraint
            (fst (Nlp_parameter (fst (Nlp_variable Nlp_init ''a'' None None None)) ''a'' None))
            ''a'' (Symbolic [Sym Var ''a'' 0]) ''=='' (Numeric [Finite 1]))"

definition ex_solver ::
  "Nlp \<Rightarrow> npfloat list \<Rightarrow> bool \<times> npfloat \<times> (symkind \<Rightarrow> string \<Rightarrow> nat \<Rightarrow> npfloat)" where
  "ex_solver n p = (True, Finite 0, (\<lambda>k name i. Finite 1))"

definition ex_solution :: "npfloat Solution" where
  "ex_solution = \<lparr> sol_success = True, sol_f = Finite 0,
     sol_vars = [(''x'', [Sym Var ''x'' 0, Sym Var ''x'' 1])],
     sol_assignment = (\<lambda>k name i. Finite 1) \<rparr>"

section \<open>Properties of the model\<close>

lemma np_ne_NegInf [simp]: "np_ne a NegInf = (a \<noteq> NegInf)"
  by (simp add: np_ne_def)

lemma np_ne_PosInf [simp]: "np_ne a PosInf = (a \<noteq> PosInf)"
  by (simp add: np_ne_def)

lemma length_symvec [simp]: "length (symvec k name m) = m"
  by (simp add: symvec_def)

lemma broadcast_to_length: "broadcast_to a k = Some vs \<Longrightarrow> length vs = k"
  by (cases a) (auto split: if_splits)

lemma Nlp_variable_wf:
  assumes "Nlp_wf n"
  shows "Nlp_wf (fst (Nlp_variable n name shape lb ub))"
  using assms
  by (auto simp: Nlp_variable_def Nlp_wf_def Let_def dest: broadcast_to_length
      split: option.splits prod.splits)

lemma broadcast_sides_length: "broadcast_sides a b = Some (l, r) \<Longrightarrow> length l = length r"
  by (auto simp: broadcast_sides_def split: if_splits)

lemma Nlp_constraint_wf:
  assumes "Nlp_wf n"
  shows "Nlp_wf (fst (Nlp_constraint n name lhs op rhs))"
  using assms
  by (auto simp: Nlp_constraint_def Nlp_wf_def Let_def dest: broadcast_sides_length
      split: option.splits prod.splits)

lemma Nlp_minimize_wf:
  assumes "Nlp_wf n"
  shows "Nlp_wf (fst (Nlp_minimize n obj))"
  using assms
  by (auto simp: Nlp_minimize_def Nlp_wf_def split: list.splits)

lemma map2_nth_map:
  "map2 f (map (\<lambda>i. a ! i) idx) (map (\<lambda>i. b ! i) idx) = map (\<lambda>i. f (a ! i) (b ! i)) idx"
  by (induction idx) auto

lemma list_all_filter_upt: "list_all (\<lambda>i. i < m) (filter P [0..<m])"
  by (simp add: list_all_iff)

lemma Nlp_wf_lengths:
  assumes "Nlp_wf n"
  shows "length (nlp_lbx n) = length (nlp_x n)" and "length (nlp_ubx n) = length (nlp_x n)"
    and "length (nlp_lam_lbx n) = length (nlp_x n)" and "length (nlp_lam_ubx n) = length (nlp_x n)"
    and "length (nlp_lam_g n) = length (nlp_g n)" and "length (nlp_lam_h n) = length (nlp_h n)"
  using assms by (simp_all add: Nlp_wf_def)

lemma take_in_range: "list_all (\<lambda>i. i < m) (filter P [0..<m])" "list_all (\<lambda>i. i < m) [0..<m]"
  by (simp_all add: list_all_iff)

lemma filter_upt_one: "filter P [0..<Suc 0] = [] \<or> filter P [0..<Suc 0] = [0]"
  by simp

text \<open>
  Indexing a column and its bounds at the same positions, then subtracting: the rows at
  these positions, as a column, unless the column has one entry and no position is given.
\<close>

lemma np_minus_cs_take:
  assumes "length a = length xs" and "list_all (\<lambda>i. i < length xs) idx"
    and "length xs = 1 \<longrightarrow> idx = [] \<or> idx = [0]"
  shows "ebind (cs_take xs idx) (np_minus_cs (map (\<lambda>i. a ! i) idx)) =
           (if length xs = 1 \<and> idx = [] then Inl RuntimeError
            else Inr ((length idx, 1), map (\<lambda>i. Sub (Const (a ! i)) (xs ! i)) idx))"
proof (cases "length xs = 1")
  case True
  then consider "idx = []" | "idx = [0]" using assms(3) by blast
  then show ?thesis
    using True by cases (simp_all add: cs_take_def np_minus_cs_def ebind_def)
next
  case False
  then show ?thesis
    using assms(2) by (simp add: cs_take_def np_minus_cs_def ebind_def map2_nth_map)
qed

lemma cs_minus_np_take:
  assumes "length a = length xs" and "list_all (\<lambda>i. i < length xs) idx"
    and "length xs = 1 \<longrightarrow> idx = [] \<or> idx = [0]"
  shows "ebind (cs_take xs idx) (\<lambda>m. cs_minus_np m (map (\<lambda>i. a ! i) idx)) =
           (if length xs = 1 \<and> idx = [] then Inl RuntimeError
            else Inr ((length idx, 1), map (\<lambda>i. Sub (xs ! i) (Const (a ! i))) idx))"
proof (cases "length xs = 1")
  case True
  then consider "idx = []" | "idx = [0]" using assms(3) by blast
  then show ?thesis
    using True by cases (simp_all add: cs_take_def cs_minus_np_def ebind_def)
next
  case False
  then show ?thesis
    using assms(2) by (simp add: cs_take_def cs_minus_np_def ebind_def map2_nth_map)
qed

lemma cs_take_shape:
  assumes "list_all (\<lambda>i. i < length xs) idx" and "length xs = 1 \<longrightarrow> idx = [0]"
  shows "cs_take xs idx = Inr ((length idx, 1), map (\<lambda>i. xs ! i) idx)"
  using assms by (auto simp: cs_take_def)

lemma h_lbx_body_simplify:
  assumes "Nlp_wf (nlp w)" and "remove_reduntant_x_bounds w"
  shows "h_lbx_body w =
    (let idl = filter (\<lambda>i. nlp_lbx (nlp w) ! i \<noteq> NegInf) [0..<length (nlp_x (nlp w))]
     in if length (nlp_x (nlp w)) = 1 \<and> idl = [] then Inl RuntimeError
        else Inr (((length idl, 1), map (\<lambda>i. Sub (Const (nlp_lbx (nlp w) ! i)) (nlp_x (nlp w) ! i)) idl),
                  ((length idl, 1), map (\<lambda>i. nlp_lam_lbx (nlp w) ! i) idl)))"
proof -
  define idl where "idl = filter (\<lambda>i. nlp_lbx (nlp w) ! i \<noteq> NegInf) [0..<length (nlp_x (nlp w))]"
  note len = Nlp_wf_lengths(1,3) [OF assms(1)]
  have r: "list_all (\<lambda>i. i < length (nlp_x (nlp w))) idl"
    unfolding idl_def by (rule take_in_range)
  have o: "length (nlp_x (nlp w)) = 1 \<longrightarrow> idl = [] \<or> idl = [0]"
    unfolding idl_def using filter_upt_one by auto
  have i: "np_where_ne (nlp_lbx (nlp w)) NegInf = idl"
    by (simp add: np_where_ne_def idl_def len)
  have t: "np_take (nlp_lbx (nlp w)) idl = Inr (map (\<lambda>i. nlp_lbx (nlp w) ! i) idl)"
    using r by (simp add: np_take_def len)
  have m: "ebind (cs_take (nlp_x (nlp w)) idl) (np_minus_cs (map (\<lambda>i. nlp_lbx (nlp w) ! i) idl)) =
           (if length (nlp_x (nlp w)) = 1 \<and> idl = [] then Inl RuntimeError
            else Inr ((length idl, 1), map (\<lambda>i. Sub (Const (nlp_lbx (nlp w) ! i)) (nlp_x (nlp w) ! i)) idl))"
    by (rule np_minus_cs_take [OF len(1) r o])
  have g: "h_lbx_body w =
             ebind (ebind (cs_take (nlp_x (nlp w)) idl) (np_minus_cs (map (\<lambda>i. nlp_lbx (nlp w) ! i) idl)))
               (\<lambda>h. ebind (cs_take (nlp_lam_lbx (nlp w)) idl) (\<lambda>lam. Inr (h, lam)))"
    using assms(2) by (simp add: h_lbx_body_def i t ebind_def split: sum.splits)
  show ?thesis
  proof (cases "length (nlp_x (nlp w)) = 1 \<and> idl = []")
    case True
    then show ?thesis
      unfolding Let_def idl_def [symmetric] g m by (simp add: ebind_def)
  next
    case False
    then have z: "length (nlp_lam_lbx (nlp w)) = 1 \<longrightarrow> idl = [0]"
      using o len by auto
    have rl: "list_all (\<lambda>i. i < length (nlp_lam_lbx (nlp w))) idl"
      using r by (simp add: len)
    have l: "cs_take (nlp_lam_lbx (nlp w)) idl = Inr ((length idl, 1), map (\<lambda>i. nlp_lam_lbx (nlp w) ! i) idl)"
      by (rule cs_take_shape [OF rl z])
    from False show ?thesis
      unfolding Let_def idl_def [symmetric] g m by (simp add: ebind_def l)
  qed
qed

lemma h_ubx_body_simplify:
  assumes "Nlp_wf (nlp w)" and "remove_reduntant_x_bounds w"
  shows "h_ubx_body w =
    (let idu = filter (\<lambda>i. nlp_ubx (nlp w) ! i \<noteq> PosInf) [0..<length (nlp_x (nlp w))]
     in if length (nlp_x (nlp w)) = 1 \<and> idu = [] then Inl RuntimeError
        else Inr (((length idu, 1), map (\<lambda>i. Sub (nlp_x (nlp w) ! i) (Const (nlp_ubx (nlp w) ! i))) idu),
                  ((length idu, 1), map (\<lambda>i. nlp_lam_ubx (nlp w) ! i) idu)))"
proof -
  define idu where "idu = filter (\<lambda>i. nlp_ubx (nlp w) ! i \<noteq> PosInf) [0..<length (nlp_x (nlp w))]"
  note len = Nlp_wf_lengths(2,4) [OF assms(1)]
  have r: "list_all (\<lambda>i. i < length (nlp_x (nlp w))) idu"
    unfolding idu_def by (rule take_in_range)
  have o: "length (nlp_x (nlp w)) = 1 \<longrightarrow> idu = [] \<or> idu = [0]"
    unfolding idu_def using filter_upt_one by auto
  have i: "np_where_ne (nlp_ubx (nlp w)) PosInf = idu"
    by (simp add: np_where_ne_def idu_def len)
  have t: "np_take (nlp_ubx (nlp w)) idu = Inr (map (\<lambda>i. nlp_ubx (nlp w) ! i) idu)"
    using r by (simp add: np_take_def len)
  have m: "ebind (cs_take (nlp_x (nlp w)) idu) (\<lambda>m. cs_minus_np m (map (\<lambda>i. nlp_ubx (nlp w) ! i) idu)) =
           (if length (nlp_x (nlp w)) = 1 \<and> idu = [] then Inl RuntimeError
            else Inr ((length idu, 1), map (\<lambda>i. Sub (nlp_x (nlp w) ! i) (Const (nlp_ubx (nlp w) ! i))) idu))"
    by (rule cs_minus_np_take [OF len(1) r o])
  have g: "h_ubx_body w =
             ebind (ebind (cs_take (nlp_x (nlp w)) idu) (\<lambda>m. cs_minus_np m (map (\<lambda>i. nlp_ubx (nlp w) ! i) idu)))
               (\<lambda>h. ebind (cs_take (nlp_lam_ubx (nlp w)) idu) (\<lambda>lam. Inr (h, lam)))"
    using assms(2) by (simp add: h_ubx_body_def i t ebind_def split: sum.splits)
  show ?thesis
  proof (cases "length (nlp_x (nlp w)) = 1 \<and> idu = []")
    case True
    then show ?thesis
      unfolding Let_def idu_def [symmetric] g m by (simp add: ebind_def)
  next
    case False
    then have z: "length (nlp_lam_ubx (nlp w)) = 1 \<longrightarrow> idu = [0]"
      using o len by auto
    have rl: "list_all (\<lambda>i. i < length (nlp_lam_ubx (nlp w))) idu"
      using r by (simp add: len)
    have l: "cs_take (nlp_lam_ubx (nlp w)) idu = Inr ((length idu, 1), map (\<lambda>i. nlp_lam_ubx (nlp w) ! i) idu)"
      by (rule cs_take_shape [OF rl z])
    from False show ?thesis
      unfolding Let_def idu_def [symmetric] g m by (simp add: ebind_def l)
  qed
qed

lemma h_lbx_body_full:
  assumes "Nlp_wf (nlp w)" and "\<not> remove_reduntant_x_bounds w"
  shows "h_lbx_body w =
    Inr (((length (nlp_x (nlp w)), 1),
          map (\<lambda>i. Sub (Const (nlp_lbx (nlp w) ! i)) (nlp_x (nlp w) ! i)) [0..<length (nlp_x (nlp w))]),
         ((length (nlp_x (nlp w)), 1),
          map (\<lambda>i. nlp_lam_lbx (nlp w) ! i) [0..<length (nlp_x (nlp w))]))"
proof -
  let ?n = "length (nlp_x (nlp w))"
  note len = Nlp_wf_lengths(1,3) [OF assms(1)]
  have r: "list_all (\<lambda>i. i < ?n) [0..<?n]" by (rule take_in_range)
  have o: "?n = 1 \<longrightarrow> [0..<?n] = [0]" by simp
  have t: "np_take (nlp_lbx (nlp w)) [0..<?n] = Inr (map (\<lambda>i. nlp_lbx (nlp w) ! i) [0..<?n])"
    using r by (simp add: np_take_def len)
  have x: "cs_take (nlp_x (nlp w)) [0..<?n] = Inr ((?n, 1), map (\<lambda>i. nlp_x (nlp w) ! i) [0..<?n])"
    using cs_take_shape [OF r o] by simp
  have l: "cs_take (nlp_lam_lbx (nlp w)) [0..<?n] =
             Inr ((?n, 1), map (\<lambda>i. nlp_lam_lbx (nlp w) ! i) [0..<?n])"
    using cs_take_shape [of "nlp_lam_lbx (nlp w)" "[0..<?n]"] r o by (simp add: len)
  show ?thesis
    using assms(2)
    by (simp add: h_lbx_body_def np_arange_def nlp_nx_def t x l ebind_def np_minus_cs_def
        map2_nth_map Let_def)
qed

lemma h_ubx_body_full:
  assumes "Nlp_wf (nlp w)" and "\<not> remove_reduntant_x_bounds w"
  shows "h_ubx_body w =
    Inr (((length (nlp_x (nlp w)), 1),
          map (\<lambda>i. Sub (nlp_x (nlp w) ! i) (Const (nlp_ubx (nlp w) ! i))) [0..<length (nlp_x (nlp w))]),
         ((length (nlp_x (nlp w)), 1),
          map (\<lambda>i. nlp_lam_ubx (nlp w) ! i) [0..<length (nlp_x (nlp w))]))"
proof -
  let ?n = "length (nlp_x (nlp w))"
  note len = Nlp_wf_lengths(2,4) [OF assms(1)]
  have r: "list_all (\<lambda>i. i < ?n) [0..<?n]" by (rule take_in_range)
  have o: "?n = 1 \<longrightarrow> [0..<?n] = [0]" by simp
  have t: "np_take (nlp_ubx (nlp w)) [0..<?n] = Inr (map (\<lambda>i. nlp_ubx (nlp w) ! i) [0..<?n])"
    using r by (simp add: np_take_def len)
  have x: "cs_take (nlp_x (nlp w)) [0..<?n] = Inr ((?n, 1), map (\<lambda>i. nlp_x (nlp w) ! i) [0..<?n])"
    using cs_take_shape [OF r o] by simp
  have l: "cs_take (nlp_lam_ubx (nlp w)) [0..<?n] =
             Inr ((?n, 1), map (\<lambda>i. nlp_lam_ubx (nlp w) ! i) [0..<?n])"
    using cs_take_shape [of "nlp_lam_ubx (nlp w)" "[0..<?n]"] r o by (simp add: len)
  show ?thesis
    using assms(2)
    by (simp add: h_ubx_body_def np_arange_def nlp_nx_def t x l ebind_def cs_minus_np_def
        map2_nth_map Let_def)
qed

lemma h_lbx_body_cong:
  assumes "nlp_lbx (nlp w') = nlp_lbx (nlp w)" and "nlp_x (nlp w') = nlp_x (nlp w)"
    and "nlp_lam_lbx (nlp w') = nlp_lam_lbx (nlp w)"
    and "remove_reduntant_x_bounds w' = remove_reduntant_x_bounds w"
  shows "h_lbx_body w' = h_lbx_body w"
  using assms by (simp add: h_lbx_body_def nlp_nx_def)

lemma h_ubx_body_cong:
  assumes "nlp_ubx (nlp w') = nlp_ubx (nlp w)" and "nlp_x (nlp w') = nlp_x (nlp w)"
    and "nlp_lam_ubx (nlp w') = nlp_lam_ubx (nlp w)"
    and "remove_reduntant_x_bounds w' = remove_reduntant_x_bounds w"
  shows "h_ubx_body w' = h_ubx_body w"
  using assms by (simp add: h_ubx_body_def nlp_nx_def)

lemma lagrangian_fresh_cong:
  assumes "nlp w' = nlp w" and "remove_reduntant_x_bounds w' = remove_reduntant_x_bounds w"
  shows "lagrangian_fresh w' = lagrangian_fresh w"
proof -
  have l: "h_lbx_body w' = h_lbx_body w"
    by (rule h_lbx_body_cong) (simp_all only: assms)
  have u: "h_ubx_body w' = h_ubx_body w"
    by (rule h_ubx_body_cong) (simp_all only: assms)
  show ?thesis
    unfolding lagrangian_fresh_def l u assms(1) by (rule refl)
qed

lemma h_lbx_unfold:
  "h_lbx w = (case cached_h_lbx w of Some v \<Rightarrow> (w, Inr v)
     | None \<Rightarrow> (case h_lbx_body w of Inl e \<Rightarrow> (w, Inl e)
                | Inr v \<Rightarrow> (w\<lparr> cached_h_lbx := Some v \<rparr>, Inr v)))"
  by (simp add: h_lbx_def cached_property_def split: option.splits sum.splits)

lemma h_ubx_unfold:
  "h_ubx w = (case cached_h_ubx w of Some v \<Rightarrow> (w, Inr v)
     | None \<Rightarrow> (case h_ubx_body w of Inl e \<Rightarrow> (w, Inl e)
                | Inr v \<Rightarrow> (w\<lparr> cached_h_ubx := Some v \<rparr>, Inr v)))"
  by (simp add: h_ubx_def cached_property_def split: option.splits sum.splits)

lemma h_lbx_frame:
  "nlp (fst (h_lbx w)) = nlp w"
  "remove_reduntant_x_bounds (fst (h_lbx w)) = remove_reduntant_x_bounds w"
  "include_barrier_term (fst (h_lbx w)) = include_barrier_term w"
  "cached_h_ubx (fst (h_lbx w)) = cached_h_ubx w"
  "cached_lagrangian (fst (h_lbx w)) = cached_lagrangian w"
  "cached_primal_dual_variables (fst (h_lbx w)) = cached_primal_dual_variables w"
  by (simp_all add: h_lbx_unfold split: option.splits sum.splits)

lemma h_ubx_frame:
  "nlp (fst (h_ubx w)) = nlp w"
  "remove_reduntant_x_bounds (fst (h_ubx w)) = remove_reduntant_x_bounds w"
  "include_barrier_term (fst (h_ubx w)) = include_barrier_term w"
  "cached_h_lbx (fst (h_ubx w)) = cached_h_lbx w"
  "cached_lagrangian (fst (h_ubx w)) = cached_lagrangian w"
  "cached_primal_dual_variables (fst (h_ubx w)) = cached_primal_dual_variables w"
  by (simp_all add: h_ubx_unfold split: option.splits sum.splits)

lemma h_lbx_value:
  assumes "caches_valid w"
  shows "snd (h_lbx w) = h_lbx_body w"
  using assms by (auto simp: h_lbx_unfold caches_valid_def split: option.splits sum.splits)

lemma h_ubx_value:
  assumes "caches_valid w"
  shows "snd (h_ubx w) = h_ubx_body w"
  using assms by (auto simp: h_ubx_unfold caches_valid_def split: option.splits sum.splits)

lemma h_lbx_valid:
  assumes "caches_valid w"
  shows "caches_valid (fst (h_lbx w))"
proof -
  let ?w' = "fst (h_lbx w)"
  have b: "h_lbx_body ?w' = h_lbx_body w" "h_ubx_body ?w' = h_ubx_body w"
    "lagrangian_fresh ?w' = lagrangian_fresh w"
    by (rule h_lbx_body_cong h_ubx_body_cong lagrangian_fresh_cong; simp only: h_lbx_frame)+
  have c: "case cached_h_lbx ?w' of None \<Rightarrow> True | Some v \<Rightarrow> h_lbx_body w = Inr v"
    using assms by (auto simp: h_lbx_unfold caches_valid_def split: option.splits sum.splits)
  show ?thesis
    using assms c unfolding caches_valid_def b h_lbx_frame by simp
qed

lemma h_ubx_valid:
  assumes "caches_valid w"
  shows "caches_valid (fst (h_ubx w))"
proof -
  let ?w' = "fst (h_ubx w)"
  have b: "h_lbx_body ?w' = h_lbx_body w" "h_ubx_body ?w' = h_ubx_body w"
    "lagrangian_fresh ?w' = lagrangian_fresh w"
    by (rule h_lbx_body_cong h_ubx_body_cong lagrangian_fresh_cong; simp only: h_ubx_frame)+
  have c: "case cached_h_ubx ?w' of None \<Rightarrow> True | Some v \<Rightarrow> h_ubx_body w = Inr v"
    using assms by (auto simp: h_ubx_unfold caches_valid_def split: option.splits sum.splits)
  show ?thesis
    using assms c unfolding caches_valid_def b h_ubx_frame by simp
qed


text \<open>The body of the Lagrangian, on a wrapper whose caches are valid.\<close>

lemma lagrangian_body_frame:
  "nlp (fst (lagrangian_body w)) = nlp w"
  "remove_reduntant_x_bounds (fst (lagrangian_body w)) = remove_reduntant_x_bounds w"
  "include_barrier_term (fst (lagrangian_body w)) = include_barrier_term w"
  "cached_lagrangian (fst (lagrangian_body w)) = cached_lagrangian w"
  "cached_primal_dual_variables (fst (lagrangian_body w)) = cached_primal_dual_variables w"
proof -
  obtain s1 r1 where h1: "h_lbx w = (s1, r1)" by (cases "h_lbx w")
  obtain s2 r2 where h2: "h_ubx s1 = (s2, r2)" by (cases "h_ubx s1")
  have f1: "s1 = fst (h_lbx w)" using h1 by simp
  have f2: "s2 = fst (h_ubx s1)" using h2 by simp
  have fst_cases: "fst (lagrangian_body w) = s1 \<or> fst (lagrangian_body w) = s2"
    using h1 h2 by (auto simp: lagrangian_body_def split: sum.splits prod.splits)
  have a: "nlp s1 = nlp w" "nlp s2 = nlp w"
    "remove_reduntant_x_bounds s1 = remove_reduntant_x_bounds w"
    "remove_reduntant_x_bounds s2 = remove_reduntant_x_bounds w"
    "include_barrier_term s1 = include_barrier_term w"
    "include_barrier_term s2 = include_barrier_term w"
    "cached_lagrangian s1 = cached_lagrangian w"
    "cached_lagrangian s2 = cached_lagrangian w"
    "cached_primal_dual_variables s1 = cached_primal_dual_variables w"
    "cached_primal_dual_variables s2 = cached_primal_dual_variables w"
    unfolding f2 h_ubx_frame unfolding f1 h_lbx_frame by simp_all
  show "nlp (fst (lagrangian_body w)) = nlp w"
    "remove_reduntant_x_bounds (fst (lagrangian_body w)) = remove_reduntant_x_bounds w"
    "include_barrier_term (fst (lagrangian_body w)) = include_barrier_term w"
    "cached_lagrangian (fst (lagrangian_body w)) = cached_lagrangian w"
    "cached_primal_dual_variables (fst (lagrangian_body w)) = cached_primal_dual_variables w"
    using fst_cases a by auto
qed

lemma lagrangian_body_valid:
  assumes "caches_valid w"
  shows "caches_valid (fst (lagrangian_body w))"
proof -
  obtain s1 r1 where h1: "h_lbx w = (s1, r1)" by (cases "h_lbx w")
  obtain s2 r2 where h2: "h_ubx s1 = (s2, r2)" by (cases "h_ubx s1")
  have v1: "caches_valid s1" using h_lbx_valid [OF assms] h1 by simp
  have v2: "caches_valid s2" using h_ubx_valid [OF v1] h2 by simp
  have "fst (lagrangian_body w) = s1 \<or> fst (lagrangian_body w) = s2"
    using h1 h2 by (auto simp: lagrangian_body_def split: sum.splits prod.splits)
  then show ?thesis using v1 v2 by auto
qed

lemma lagrangian_body_value:
  assumes "caches_valid w"
  shows "snd (lagrangian_body w) = lagrangian_fresh w"
proof -
  obtain s1 r1 where h1: "h_lbx w = (s1, r1)" by (cases "h_lbx w")
  obtain s2 r2 where h2: "h_ubx s1 = (s2, r2)" by (cases "h_ubx s1")
  have f1: "s1 = fst (h_lbx w)" using h1 by simp
  have f2: "s2 = fst (h_ubx s1)" using h2 by simp
  have v1: "caches_valid s1" using h_lbx_valid [OF assms] h1 by simp
  have r1: "r1 = h_lbx_body w" using h_lbx_value [OF assms] h1 by simp
  have "r2 = h_ubx_body s1" using h_ubx_value [OF v1] h2 by simp
  also have "\<dots> = h_ubx_body w"
    unfolding f1 by (rule h_ubx_body_cong; simp only: h_lbx_frame)
  finally have r2: "r2 = h_ubx_body w" .
  have n2: "nlp s2 = nlp w" unfolding f2 h_ubx_frame unfolding f1 h_lbx_frame by simp
  show ?thesis
    using h1 h2 r1 r2 n2
    by (auto simp: lagrangian_body_def lagrangian_fresh_def ebind_def
        split: sum.splits prod.splits)
qed

lemma lagrangian_unfold:
  "lagrangian w = (case cached_lagrangian w of Some v \<Rightarrow> (w, Inr v)
     | None \<Rightarrow> (case snd (lagrangian_body w) of Inl e \<Rightarrow> (fst (lagrangian_body w), Inl e)
                | Inr v \<Rightarrow> ((fst (lagrangian_body w))\<lparr> cached_lagrangian := Some v \<rparr>, Inr v)))"
  by (cases "lagrangian_body w")
     (simp add: lagrangian_def cached_property_def split: option.splits sum.splits)

lemma lagrangian_value:
  assumes "caches_valid w"
  shows "snd (lagrangian w) = lagrangian_fresh w"
proof (cases "cached_lagrangian w")
  case None
  then show ?thesis
    using lagrangian_body_value [OF assms]
    by (simp add: lagrangian_unfold split: sum.splits)
next
  case (Some v)
  then show ?thesis
    using assms by (simp add: lagrangian_unfold caches_valid_def)
qed

lemma lagrangian_frame:
  "nlp (fst (lagrangian w)) = nlp w"
  "remove_reduntant_x_bounds (fst (lagrangian w)) = remove_reduntant_x_bounds w"
  "include_barrier_term (fst (lagrangian w)) = include_barrier_term w"
  "cached_primal_dual_variables (fst (lagrangian w)) = cached_primal_dual_variables w"
  by (simp_all add: lagrangian_unfold lagrangian_body_frame split: option.splits sum.splits)

lemma caches_valid_store_lagrangian:
  assumes "caches_valid s" and "lagrangian_fresh s = Inr v"
  shows "caches_valid (s\<lparr> cached_lagrangian := Some v \<rparr>)"
proof -
  let ?s = "s\<lparr> cached_lagrangian := Some v \<rparr>"
  have b: "h_lbx_body ?s = h_lbx_body s" "h_ubx_body ?s = h_ubx_body s"
    "lagrangian_fresh ?s = lagrangian_fresh s"
    by (rule h_lbx_body_cong h_ubx_body_cong lagrangian_fresh_cong; simp)+
  show ?thesis
    using assms unfolding caches_valid_def b by simp
qed

lemma lagrangian_valid:
  assumes "caches_valid w"
  shows "caches_valid (fst (lagrangian w))"
proof (cases "cached_lagrangian w")
  case (Some v)
  then show ?thesis using assms by (simp add: lagrangian_unfold)
next
  case None
  let ?s = "fst (lagrangian_body w)"
  have vs: "caches_valid ?s" by (rule lagrangian_body_valid [OF assms])
  have fr: "lagrangian_fresh ?s = lagrangian_fresh w"
    by (rule lagrangian_fresh_cong; simp only: lagrangian_body_frame)
  show ?thesis
  proof (cases "snd (lagrangian_body w)")
    case (Inl e)
    then show ?thesis using None vs by (simp add: lagrangian_unfold)
  next
    case (Inr v)
    have "lagrangian_fresh ?s = Inr v"
      using Inr lagrangian_body_value [OF assms] fr by simp
    then have "caches_valid (?s\<lparr> cached_lagrangian := Some v \<rparr>)"
      by (rule caches_valid_store_lagrangian [OF vs])
    then show ?thesis using None Inr by (simp add: lagrangian_unfold)
  qed
qed

lemma module_globals_lookup: "map_of module_globals ''_PRIMAL_DUAL_ORDER'' = None"
  by (simp add: module_globals_def)

lemma primal_dual_variables_body_NameError:
  "primal_dual_variables_body w = (w, Inl NameError)"
  by (simp add: primal_dual_variables_body_def module_globals_lookup)

lemma primal_dual_variables_unfold:
  "primal_dual_variables w =
     (case cached_primal_dual_variables w of Some v \<Rightarrow> (w, Inr v) | None \<Rightarrow> (w, Inl NameError))"
  by (simp add: primal_dual_variables_def cached_property_def primal_dual_variables_body_NameError
      split: option.splits)

lemma primal_dual_variables_valid:
  assumes "caches_valid w"
  shows "fst (primal_dual_variables w) = w"
  by (simp add: primal_dual_variables_unfold split: option.splits)

lemma Nlp_variable_failure:
  assumes "snd (Nlp_variable n name shape lb ub) = Inl e"
  shows "fst (Nlp_variable n name shape lb ub) = n"
  using assms
  by (auto simp: Nlp_variable_def Let_def split: option.splits if_splits prod.splits)

lemma Nlp_constraint_cases:
  "Nlp_constraint n name lhs op rhs = (n, Inl NamingConflict) \<or>
   Nlp_constraint n name lhs op rhs = (n, Inl TypeError) \<or>
   Nlp_constraint n name lhs op rhs = (n, Inl UnsupportedOperator) \<or>
   Nlp_constraint n name lhs op rhs = (n, Inl ValidationError) \<or>
   (\<exists>r. snd (Nlp_constraint n name lhs op rhs) = Inr r)"
  unfolding Nlp_constraint_def Let_def
  by (simp split: option.split prod.split)

lemma Nlp_constraint_failure:
  assumes "snd (Nlp_constraint n name lhs op rhs) = Inl e"
  shows "fst (Nlp_constraint n name lhs op rhs) = n"
  using assms Nlp_constraint_cases [of n name lhs op rhs] by auto

lemma Nlp_minimize_failure:
  assumes "snd (Nlp_minimize n obj) = Inl e"
  shows "fst (Nlp_minimize n obj) = n"
  using assms by (auto simp: Nlp_minimize_def split: list.splits)

lemma Nlp_constraint_frame:
  "nlp_vars (fst (Nlp_constraint n name lhs op rhs)) = nlp_vars n"
  "nlp_x (fst (Nlp_constraint n name lhs op rhs)) = nlp_x n"
  "nlp_lbx (fst (Nlp_constraint n name lhs op rhs)) = nlp_lbx n"
  "nlp_ubx (fst (Nlp_constraint n name lhs op rhs)) = nlp_ubx n"
  "nlp_lam_lbx (fst (Nlp_constraint n name lhs op rhs)) = nlp_lam_lbx n"
  "nlp_lam_ubx (fst (Nlp_constraint n name lhs op rhs)) = nlp_lam_ubx n"
  "nlp_f (fst (Nlp_constraint n name lhs op rhs)) = nlp_f n"
  by (simp_all add: Nlp_constraint_def Let_def split: option.splits prod.splits)

lemma Nlp_minimize_frame:
  "nlp_vars (fst (Nlp_minimize n obj)) = nlp_vars n"
  "nlp_x (fst (Nlp_minimize n obj)) = nlp_x n"
  "nlp_lbx (fst (Nlp_minimize n obj)) = nlp_lbx n"
  "nlp_ubx (fst (Nlp_minimize n obj)) = nlp_ubx n"
  "nlp_lam_lbx (fst (Nlp_minimize n obj)) = nlp_lam_lbx n"
  "nlp_lam_ubx (fst (Nlp_minimize n obj)) = nlp_lam_ubx n"
  "nlp_g (fst (Nlp_minimize n obj)) = nlp_g n"
  "nlp_lam_g (fst (Nlp_minimize n obj)) = nlp_lam_g n"
  "nlp_h (fst (Nlp_minimize n obj)) = nlp_h n"
  "nlp_lam_h (fst (Nlp_minimize n obj)) = nlp_lam_h n"
  by (simp_all add: Nlp_minimize_def split: list.splits)

lemma variable_unfold:
  "variable w name shape lb ub =
     (case snd (Nlp_variable (nlp w) name shape lb ub) of
        Inl e \<Rightarrow> (w\<lparr> nlp := fst (Nlp_variable (nlp w) name shape lb ub) \<rparr>, Inl e)
      | Inr r \<Rightarrow> (w\<lparr> nlp := fst (Nlp_variable (nlp w) name shape lb ub),
                      cached_h_lbx := None, cached_h_ubx := None, cached_lagrangian := None,
                      cached_primal_dual_variables := None \<rparr>, Inr r))"
  by (cases "Nlp_variable (nlp w) name shape lb ub")
     (simp add: variable_def cached_property_reset_def split: sum.splits)

lemma constraint_unfold:
  "constraint w name lhs op rhs =
     (case snd (Nlp_constraint (nlp w) name lhs op rhs) of
        Inl e \<Rightarrow> (w\<lparr> nlp := fst (Nlp_constraint (nlp w) name lhs op rhs) \<rparr>, Inl e)
      | Inr r \<Rightarrow> (w\<lparr> nlp := fst (Nlp_constraint (nlp w) name lhs op rhs),
                      cached_lagrangian := None,
                      cached_primal_dual_variables := None \<rparr>, Inr r))"
  by (cases "Nlp_constraint (nlp w) name lhs op rhs")
     (simp add: constraint_def cached_property_reset_def split: sum.splits)

lemma minimize_unfold:
  "minimize w obj =
     (case snd (Nlp_minimize (nlp w) obj) of
        Inl e \<Rightarrow> (w\<lparr> nlp := fst (Nlp_minimize (nlp w) obj) \<rparr>, Inl e)
      | Inr r \<Rightarrow> (w\<lparr> nlp := fst (Nlp_minimize (nlp w) obj), cached_lagrangian := None \<rparr>, Inr r))"
  by (cases "Nlp_minimize (nlp w) obj")
     (simp add: minimize_def cached_property_reset_def split: sum.splits)

lemma variable_valid:
  assumes "caches_valid w"
  shows "caches_valid (fst (variable w name shape lb ub))"
proof (cases "snd (Nlp_variable (nlp w) name shape lb ub)")
  case (Inl e)
  then show ?thesis
    using assms Nlp_variable_failure [OF Inl] by (simp add: variable_unfold)
next
  case (Inr r)
  then show ?thesis by (simp add: variable_unfold caches_valid_def)
qed

lemma constraint_valid:
  assumes "caches_valid w"
  shows "caches_valid (fst (constraint w name lhs op rhs))"
proof (cases "snd (Nlp_constraint (nlp w) name lhs op rhs)")
  case (Inl e)
  then show ?thesis
    using assms Nlp_constraint_failure [OF Inl] by (simp add: constraint_unfold)
next
  case (Inr r)
  let ?s = "w\<lparr> nlp := fst (Nlp_constraint (nlp w) name lhs op rhs),
               cached_lagrangian := None, cached_primal_dual_variables := None \<rparr>"
  have b: "h_lbx_body ?s = h_lbx_body w" "h_ubx_body ?s = h_ubx_body w"
    by (rule h_lbx_body_cong h_ubx_body_cong; simp add: Nlp_constraint_frame)+
  have "caches_valid ?s"
    using assms unfolding caches_valid_def b by simp
  then show ?thesis using Inr by (simp add: constraint_unfold)
qed

lemma minimize_valid:
  assumes "caches_valid w"
  shows "caches_valid (fst (minimize w obj))"
proof (cases "snd (Nlp_minimize (nlp w) obj)")
  case (Inl e)
  then show ?thesis
    using assms Nlp_minimize_failure [OF Inl] by (simp add: minimize_unfold)
next
  case (Inr r)
  let ?s = "w\<lparr> nlp := fst (Nlp_minimize (nlp w) obj), cached_lagrangian := None \<rparr>"
  have b: "h_lbx_body ?s = h_lbx_body w" "h_ubx_body ?s = h_ubx_body w"
    by (rule h_lbx_body_cong h_ubx_body_cong; simp add: Nlp_minimize_frame)+
  have "caches_valid ?s"
    using assms unfolding caches_valid_def b by simp
  then show ?thesis using Inr by (simp add: minimize_unfold)
qed

lemma perform_valid:
  assumes "caches_valid w"
  shows "caches_valid (perform w a)"
  using assms
  by (cases a)
     (simp_all add: variable_valid constraint_valid minimize_valid h_lbx_valid h_ubx_valid
       lagrangian_valid primal_dual_variables_valid)

lemma perform_wf:
  assumes "Nlp_wf (nlp w)"
  shows "Nlp_wf (nlp (perform w a))"
proof (cases a)
  case (DeclVariable name shape lb ub)
  have "nlp (fst (variable w name shape lb ub)) = fst (Nlp_variable (nlp w) name shape lb ub)"
    by (simp add: variable_unfold split: sum.splits)
  then show ?thesis using DeclVariable Nlp_variable_wf [OF assms] by simp
next
  case (DeclConstraint name lhs op rhs)
  have "nlp (fst (constraint w name lhs op rhs)) = fst (Nlp_constraint (nlp w) name lhs op rhs)"
    by (simp add: constraint_unfold split: sum.splits)
  then show ?thesis using DeclConstraint Nlp_constraint_wf [OF assms] by simp
next
  case (SetObjective obj)
  have "nlp (fst (minimize w obj)) = fst (Nlp_minimize (nlp w) obj)"
    by (simp add: minimize_unfold split: sum.splits)
  then show ?thesis using SetObjective Nlp_minimize_wf [OF assms] by simp
next
  case ReadHlbx
  then show ?thesis using assms by (simp add: h_lbx_frame)
next
  case ReadHubx
  then show ?thesis using assms by (simp add: h_ubx_frame)
next
  case ReadLagrangian
  then show ?thesis using assms by (simp add: lagrangian_frame)
next
  case ReadPrimalDual
  then show ?thesis using assms by (simp add: primal_dual_variables_unfold split: option.splits)
qed

lemma perform_flags:
  "remove_reduntant_x_bounds (perform w a) = remove_reduntant_x_bounds w"
  "include_barrier_term (perform w a) = include_barrier_term w"
  by (cases a; simp add: variable_unfold constraint_unfold minimize_unfold h_lbx_frame
      h_ubx_frame lagrangian_frame primal_dual_variables_unfold split: sum.splits option.splits)+

lemma run_invariants:
  assumes "caches_valid w" and "Nlp_wf (nlp w)"
  shows "caches_valid (run w acts) \<and> Nlp_wf (nlp (run w acts)) \<and>
         remove_reduntant_x_bounds (run w acts) = remove_reduntant_x_bounds w \<and>
         include_barrier_term (run w acts) = include_barrier_term w"
  using assms unfolding run_def
proof (induction acts arbitrary: w)
  case Nil
  then show ?case by simp
next
  case (Cons a acts)
  have "caches_valid (perform w a)" "Nlp_wf (nlp (perform w a))"
    using Cons.prems by (simp_all add: perform_valid perform_wf)
  from Cons.IH [OF this] show ?case by (simp add: perform_flags)
qed

lemma init_valid: "caches_valid (DifferentiableNlp_init n s b)"
  by (simp add: caches_valid_def DifferentiableNlp_init_def)

lemma init_fields:
  "nlp (DifferentiableNlp_init n s b) = n"
  "remove_reduntant_x_bounds (DifferentiableNlp_init n s b) = (case s of None \<Rightarrow> True | Some v \<Rightarrow> v)"
  "include_barrier_term (DifferentiableNlp_init n s b) = (case b of None \<Rightarrow> False | Some v \<Rightarrow> v)"
  by (simp_all add: DifferentiableNlp_init_def)

section \<open>The primal-dual vector\<close>

lemma perform_primal_dual_cache:
  assumes "cached_primal_dual_variables w = None"
  shows "cached_primal_dual_variables (perform w a) = None"
  using assms
  by (cases a)
     (simp_all add: variable_unfold constraint_unfold minimize_unfold h_lbx_frame h_ubx_frame
       lagrangian_frame primal_dual_variables_unfold split: sum.splits)

lemma run_primal_dual_cache:
  assumes "cached_primal_dual_variables w = None"
  shows "cached_primal_dual_variables (run w acts) = None"
  using assms unfolding run_def
  by (induction acts arbitrary: w) (simp_all add: perform_primal_dual_cache)

text \<open>
  What the loop would build from the list the module does define: the blocks
  \<open>x\<close>, \<open>lam_g\<close>, \<open>lam_h\<close>, and the multipliers of the retained lower and upper bounds,
  in this order.
\<close>

lemma primal_dual_loop_PRIMAL_DUAL_ORDER:
  assumes "caches_valid w" and "h_lbx_body w = Inr (hl, ll)" and "h_ubx_body w = Inr (hu, lu)"
  shows "snd (primal_dual_loop PRIMAL_DUAL_ORDER w []) =
           Inr [cs_column (nlp_x (nlp w)), cs_column (nlp_lam_g (nlp w)),
                cs_column (nlp_lam_h (nlp w)), ll, lu]"
proof -
  obtain s1 where s1: "h_lbx w = (s1, Inr (hl, ll))"
    using h_lbx_value [OF assms(1)] assms(2) by (cases "h_lbx w") simp
  have f1: "s1 = fst (h_lbx w)" using s1 by simp
  have v1: "caches_valid s1" using h_lbx_valid [OF assms(1)] s1 by simp
  have "h_ubx_body s1 = h_ubx_body w"
    unfolding f1 by (rule h_ubx_body_cong; simp only: h_lbx_frame)
  then obtain s2 where s2: "h_ubx s1 = (s2, Inr (hu, lu))"
    using h_ubx_value [OF v1] assms(3) by (cases "h_ubx s1") simp
  have n: "nlp s1 = nlp w" "nlp s2 = nlp w"
    using s1 s2 h_lbx_frame(1) [of w] h_ubx_frame(1) [of s1] by simp_all
  show ?thesis
    by (simp add: PRIMAL_DUAL_ORDER_def s1 s2 n)
qed

text \<open>
  C1.  The property \<open>primal_dual_variables\<close> should return the vertical concatenation of
  \<open>x\<close>, \<open>lam_g\<close>, \<open>lam_h\<close> and the retained bound multipliers.  The code iterates over
  \<open>_PRIMAL_DUAL_ORDER\<close>, a name the module never binds (it binds \<open>PRIMAL_DUAL_ORDER\<close>):
  on every wrapper, after any sequence of calls, reading the property raises
  \<open>NameError\<close> and returns no vector.
\<close>

theorem primal_dual_variables_raises_NameError:
  "snd (primal_dual_variables (run (DifferentiableNlp_init n s b) acts)) = Inl NameError"
proof -
  have "cached_primal_dual_variables (DifferentiableNlp_init n s b) = None"
    by (simp add: DifferentiableNlp_init_def)
  then have "cached_primal_dual_variables (run (DifferentiableNlp_init n s b) acts) = None"
    by (rule run_primal_dual_cache)
  then show ?thesis by (simp add: primal_dual_variables_unfold)
qed

section \<open>The bound-derived inequalities\<close>

lemma run_from_init:
  assumes "Nlp_wf n0"
  shows "caches_valid (run (DifferentiableNlp_init n0 s b) acts)"
    and "Nlp_wf (nlp (run (DifferentiableNlp_init n0 s b) acts))"
    and "remove_reduntant_x_bounds (run (DifferentiableNlp_init n0 s b) acts) =
           (case s of None \<Rightarrow> True | Some v \<Rightarrow> v)"
    and "include_barrier_term (run (DifferentiableNlp_init n0 s b) acts) =
           (case b of None \<Rightarrow> False | Some v \<Rightarrow> v)"
proof -
  have "Nlp_wf (nlp (DifferentiableNlp_init n0 s b))"
    using assms by (simp add: init_fields)
  from run_invariants [OF init_valid this, of acts]
  show "caches_valid (run (DifferentiableNlp_init n0 s b) acts)"
    and "Nlp_wf (nlp (run (DifferentiableNlp_init n0 s b) acts))"
    and "remove_reduntant_x_bounds (run (DifferentiableNlp_init n0 s b) acts) =
           (case s of None \<Rightarrow> True | Some v \<Rightarrow> v)"
    and "include_barrier_term (run (DifferentiableNlp_init n0 s b) acts) =
           (case b of None \<Rightarrow> False | Some v \<Rightarrow> v)"
    by (simp_all add: init_fields)
qed

text \<open>
  In simplify mode, after any sequence of calls on a wrapper built over a well-formed
  NLP: when the NLP has exactly one scalar variable and no row is retained, the read
  raises; in every other case \<open>h_lbx\<close> holds exactly the rows \<open>i\<close> with
  \<open>lbx[i] != -inf\<close>, in ascending order, each being \<open>lbx[i] - x[i]\<close>, as a column,
  with the multipliers of the same rows (and likewise \<open>h_ubx\<close>, with \<open>x[i] - ubx[i]\<close>
  on the rows with \<open>ubx[i] != +inf\<close>).
\<close>

lemma bound_terms_simplify_mode_cases:
  assumes "Nlp_wf n0" and "s \<noteq> Some False"
  shows "let w = run (DifferentiableNlp_init n0 s b) acts;
             n = nlp w;
             idl = filter (\<lambda>i. nlp_lbx n ! i \<noteq> NegInf) [0..<nlp_nx n];
             idu = filter (\<lambda>i. nlp_ubx n ! i \<noteq> PosInf) [0..<nlp_nx n]
         in snd (h_lbx w) =
              (if nlp_nx n = 1 \<and> idl = [] then Inl RuntimeError
               else Inr (((length idl, 1), map (\<lambda>i. Sub (Const (nlp_lbx n ! i)) (nlp_x n ! i)) idl),
                         ((length idl, 1), map (\<lambda>i. nlp_lam_lbx n ! i) idl))) \<and>
            snd (h_ubx w) =
              (if nlp_nx n = 1 \<and> idu = [] then Inl RuntimeError
               else Inr (((length idu, 1), map (\<lambda>i. Sub (nlp_x n ! i) (Const (nlp_ubx n ! i))) idu),
                         ((length idu, 1), map (\<lambda>i. nlp_lam_ubx n ! i) idu)))"
proof -
  let ?w = "run (DifferentiableNlp_init n0 s b) acts"
  have v: "caches_valid ?w" and wf: "Nlp_wf (nlp ?w)"
    by (rule run_from_init [OF assms(1)])+
  have "remove_reduntant_x_bounds ?w = (case s of None \<Rightarrow> True | Some v \<Rightarrow> v)"
    by (rule run_from_init [OF assms(1)])
  then have fl: "remove_reduntant_x_bounds ?w"
    using assms(2) by (cases s) auto
  show ?thesis
    unfolding Let_def nlp_nx_def h_lbx_value [OF v] h_ubx_value [OF v]
    using h_lbx_body_simplify [OF wf fl] h_ubx_body_simplify [OF wf fl]
    by (simp add: Let_def)
qed

text \<open>
  C3.  In simplify mode \<open>h_lbx\<close> and \<open>h_ubx\<close> should hold the rows with a finite bound and
  nothing else.  On the NLP whose only variable is one scalar without bounds the retained
  sets are empty, \<open>x[idx]\<close> is a 1x0 matrix where \<open>lbx[idx, None]\<close> is 0x1, and the
  subtraction fails: both reads raise \<open>RuntimeError\<close> instead of returning empty pairs.
\<close>

theorem bound_terms_raise_on_single_unbounded_scalar:
  "remove_reduntant_x_bounds ex_declared = True \<and>
   nlp_x (nlp ex_declared) = [Sym Var ''x'' 0] \<and>
   nlp_lbx (nlp ex_declared) = [NegInf] \<and>
   nlp_ubx (nlp ex_declared) = [PosInf] \<and>
   snd (h_lbx ex_declared) = Inl RuntimeError \<and>
   snd (h_ubx ex_declared) = Inl RuntimeError"
  by code_simp

text \<open>The scenario of the test, evaluated: only the bounded rows are kept.\<close>

lemma ex_decls_h_lbx_simplify:
  "snd (h_lbx (run (DifferentiableNlp_init Nlp_init None None) ex_decls)) =
     Inr (((2, 1), [Sub (Const (Finite 0)) (Sym Var ''x2'' 0), Sub (Const (Finite 0)) (Sym Var ''x2'' 1)]),
          ((2, 1), [Sym LamLb ''x2'' 0, Sym LamLb ''x2'' 1]))"
  by code_simp

lemma ex_decls_h_ubx_simplify:
  "snd (h_ubx (run (DifferentiableNlp_init Nlp_init None None) ex_decls)) =
     Inr (((1, 1), [Sub (Sym Var ''x3'' 0) (Const (Finite 1))]), ((1, 1), [Sym LamUb ''x3'' 0]))"
  by code_simp

text \<open>An unbounded variable of two rows gives empty columns, as the test expects.\<close>

lemma ex_pair_declared_bound_terms:
  "snd (h_lbx ex_pair_declared) = Inr (((0, 1), []), ((0, 1), []))"
  "snd (h_ubx ex_pair_declared) = Inr (((0, 1), []), ((0, 1), []))"
  by (code_simp+)

lemma sum_list_sizes: "Nlp_wf n \<Longrightarrow> sum_list (map (\<lambda>(name, s). length s) (nlp_vars n)) = nlp_nx n"
  by (simp add: Nlp_wf_def nlp_nx_def)

text \<open>
  C4.  In full mode (\<open>simplify_x_bounds=False\<close>), after any sequence of calls, \<open>h_lbx\<close>
  and \<open>h_ubx\<close> and their multipliers are columns with one row per scalar variable,
  whatever the bounds: as many rows as the sizes of the declared variables add up to.
  Row \<open>i\<close> of \<open>h_lbx\<close> is \<open>lbx[i] - x[i]\<close> and evaluates, under any substitution, to the
  bound minus the value of the variable; row \<open>i\<close> of \<open>h_ubx\<close> is \<open>x[i] - ubx[i]\<close>.
\<close>

theorem bound_terms_full_mode:
  assumes "Nlp_wf n0"
  shows "let w = run (DifferentiableNlp_init n0 (Some False) b) acts; n = nlp w
         in \<exists>hl ll hu lu.
              snd (h_lbx w) = Inr (((length hl, 1), hl), ((length hl, 1), ll)) \<and>
              snd (h_ubx w) = Inr (((length hl, 1), hu), ((length hl, 1), lu)) \<and>
              length hl = sum_list (map (\<lambda>(name, s). length s) (nlp_vars n)) \<and>
              length ll = length hl \<and> length hu = length hl \<and> length lu = length hl \<and>
              (\<forall>i < length hl.
                 hl ! i = Sub (Const (nlp_lbx n ! i)) (nlp_x n ! i) \<and>
                 ll ! i = nlp_lam_lbx n ! i \<and>
                 hu ! i = Sub (nlp_x n ! i) (Const (nlp_ubx n ! i)) \<and>
                 lu ! i = nlp_lam_ubx n ! i \<and>
                 subsevalf A env (hl ! i) =
                   minus_op A (of_float A (nlp_lbx n ! i)) (subsevalf A env (nlp_x n ! i)))"
proof -
  let ?w = "run (DifferentiableNlp_init n0 (Some False) b) acts"
  have v: "caches_valid ?w" and wf: "Nlp_wf (nlp ?w)"
    by (rule run_from_init [OF assms(1)])+
  have "remove_reduntant_x_bounds ?w = (case Some False of None \<Rightarrow> True | Some v \<Rightarrow> v)"
    by (rule run_from_init [OF assms(1)])
  then have fl: "\<not> remove_reduntant_x_bounds ?w" by simp
  let ?n = "length (nlp_x (nlp ?w))"
  let ?hl = "map (\<lambda>i. Sub (Const (nlp_lbx (nlp ?w) ! i)) (nlp_x (nlp ?w) ! i)) [0..<?n]"
  let ?ll = "map (\<lambda>i. nlp_lam_lbx (nlp ?w) ! i) [0..<?n]"
  let ?hu = "map (\<lambda>i. Sub (nlp_x (nlp ?w) ! i) (Const (nlp_ubx (nlp ?w) ! i))) [0..<?n]"
  let ?lu = "map (\<lambda>i. nlp_lam_ubx (nlp ?w) ! i) [0..<?n]"
  have "snd (h_lbx ?w) = Inr (((length ?hl, 1), ?hl), ((length ?hl, 1), ?ll))"
    by (simp add: h_lbx_value [OF v] h_lbx_body_full [OF wf fl])
  moreover have "snd (h_ubx ?w) = Inr (((length ?hl, 1), ?hu), ((length ?hl, 1), ?lu))"
    by (simp add: h_ubx_value [OF v] h_ubx_body_full [OF wf fl])
  moreover have "length ?hl = sum_list (map (\<lambda>(name, s). length s) (nlp_vars (nlp ?w)))"
    by (simp add: sum_list_sizes [OF wf] nlp_nx_def)
  moreover have "length ?ll = length ?hl" "length ?hu = length ?hl" "length ?lu = length ?hl"
    by simp_all
  moreover have "\<forall>i < length ?hl.
      ?hl ! i = Sub (Const (nlp_lbx (nlp ?w) ! i)) (nlp_x (nlp ?w) ! i) \<and>
      ?ll ! i = nlp_lam_lbx (nlp ?w) ! i \<and>
      ?hu ! i = Sub (nlp_x (nlp ?w) ! i) (Const (nlp_ubx (nlp ?w) ! i)) \<and>
      ?lu ! i = nlp_lam_ubx (nlp ?w) ! i \<and>
      subsevalf A env (?hl ! i) =
        minus_op A (of_float A (nlp_lbx (nlp ?w) ! i)) (subsevalf A env (nlp_x (nlp ?w) ! i))"
    by simp
  ultimately show ?thesis
    unfolding Let_def by blast
qed

theorem bound_terms_full_mode_witness:
  "Nlp_wf Nlp_init \<and>
   (let w = run (DifferentiableNlp_init Nlp_init (Some False) None) ex_decls; n = nlp w
    in \<exists>hl ll hu lu.
         snd (h_lbx w) = Inr (((length hl, 1), hl), ((length hl, 1), ll)) \<and>
         snd (h_ubx w) = Inr (((length hl, 1), hu), ((length hl, 1), lu)) \<and>
         length hl = sum_list (map (\<lambda>(name, s). length s) (nlp_vars n)) \<and>
         length ll = length hl \<and> length hu = length hl \<and> length lu = length hl \<and>
         (\<forall>i < length hl.
            hl ! i = Sub (Const (nlp_lbx n ! i)) (nlp_x n ! i) \<and>
            ll ! i = nlp_lam_lbx n ! i \<and>
            hu ! i = Sub (nlp_x n ! i) (Const (nlp_ubx n ! i)) \<and>
            lu ! i = nlp_lam_ubx n ! i \<and>
            subsevalf float_numeric (\<lambda>k name j. Finite 1) (hl ! i) =
              minus_op float_numeric (of_float float_numeric (nlp_lbx n ! i))
                (subsevalf float_numeric (\<lambda>k name j. Finite 1) (nlp_x n ! i))))"
proof -
  have h1: "Nlp_wf Nlp_init" by (simp add: Nlp_wf_def Nlp_init_def)
  show ?thesis
    by (rule conjI [OF h1 bound_terms_full_mode [OF h1]])
qed

text \<open>The scenario of the test in full mode: five rows, the unbounded ones included.\<close>

lemma ex_decls_h_lbx_full:
  "snd (h_lbx (run (DifferentiableNlp_init Nlp_init (Some False) None) ex_decls)) =
     Inr (((5, 1),
           [Sub (Const NegInf) (Sym Var ''x1'' 0), Sub (Const NegInf) (Sym Var ''x1'' 1),
            Sub (Const (Finite 0)) (Sym Var ''x2'' 0), Sub (Const (Finite 0)) (Sym Var ''x2'' 1),
            Sub (Const NegInf) (Sym Var ''x3'' 0)]),
          ((5, 1),
           [Sym LamLb ''x1'' 0, Sym LamLb ''x1'' 1, Sym LamLb ''x2'' 0, Sym LamLb ''x2'' 1,
            Sym LamLb ''x3'' 0]))"
  by code_simp

text \<open>Full mode on the single unbounded scalar: the one row is returned.\<close>

lemma ex_single_scalar_full_mode:
  "snd (h_lbx (run (DifferentiableNlp_init Nlp_init (Some False) None)
                 [DeclVariable ''x'' None None None])) =
     Inr (((1, 1), [Sub (Const NegInf) (Sym Var ''x'' 0)]), ((1, 1), [Sym LamLb ''x'' 0]))"
  by code_simp

section \<open>The Lagrangian\<close>

lemma dot_total: "fst a = fst b \<Longrightarrow> \<exists>d. cs_dot a b = Inr d"
  by (simp add: cs_dot_def)

lemma h_lbx_body_shapes:
  assumes "Nlp_wf (nlp w)" and "h_lbx_body w = Inr (hl, ll)"
  shows "fst ll = fst hl"
proof (cases "remove_reduntant_x_bounds w")
  case True
  show ?thesis
    using assms(2) h_lbx_body_simplify [OF assms(1) True]
    by (auto simp: Let_def split: if_splits)
next
  case False
  show ?thesis
    using assms(2) h_lbx_body_full [OF assms(1) False] by auto
qed

lemma h_ubx_body_shapes:
  assumes "Nlp_wf (nlp w)" and "h_ubx_body w = Inr (hu, lu)"
  shows "fst lu = fst hu"
proof (cases "remove_reduntant_x_bounds w")
  case True
  show ?thesis
    using assms(2) h_ubx_body_simplify [OF assms(1) True]
    by (auto simp: Let_def split: if_splits)
next
  case False
  show ?thesis
    using assms(2) h_ubx_body_full [OF assms(1) False] by auto
qed

text \<open>
  On a wrapper built over a well-formed NLP, after any sequence of calls that leaves a
  scalar objective \<open>f\<close> set: whenever the reads of \<open>h_lbx\<close> and \<open>h_ubx\<close> return their
  pairs, \<open>lagrangian\<close> returns
  \<open>f + dot(lam_g, g) + dot(lam_h, h) + dot(lam_lbx', h_lbx) + dot(lam_ubx', h_ubx)\<close>
  over exactly these pairs.
\<close>

lemma lagrangian_formula_when_bounds_returned:
  assumes "Nlp_wf n0"
    and "nlp_f (nlp (run (DifferentiableNlp_init n0 s b) acts)) = Some f"
    and "snd (h_lbx (run (DifferentiableNlp_init n0 s b) acts)) = Inr (hl, ll)"
    and "snd (h_ubx (run (DifferentiableNlp_init n0 s b) acts)) = Inr (hu, lu)"
  shows "let w = run (DifferentiableNlp_init n0 s b) acts; n = nlp w
         in \<exists>d1 d2 d3 d4.
              cs_dot (cs_column (nlp_lam_g n)) (cs_column (nlp_g n)) = Inr d1 \<and>
              cs_dot (cs_column (nlp_lam_h n)) (cs_column (nlp_h n)) = Inr d2 \<and>
              cs_dot ll hl = Inr d3 \<and>
              cs_dot lu hu = Inr d4 \<and>
              snd (lagrangian w) = Inr (Add (Add (Add (Add f d1) d2) d3) d4)"
proof -
  let ?w = "run (DifferentiableNlp_init n0 s b) acts"
  have v: "caches_valid ?w" and wf: "Nlp_wf (nlp ?w)"
    by (rule run_from_init [OF assms(1)])+
  have l: "h_lbx_body ?w = Inr (hl, ll)"
    using assms(3) by (simp add: h_lbx_value [OF v])
  have u: "h_ubx_body ?w = Inr (hu, lu)"
    using assms(4) by (simp add: h_ubx_value [OF v])
  have "fst (cs_column (nlp_lam_g (nlp ?w))) = fst (cs_column (nlp_g (nlp ?w)))"
    by (simp add: cs_column_def Nlp_wf_lengths(5) [OF wf])
  then obtain d1 where d1: "cs_dot (cs_column (nlp_lam_g (nlp ?w))) (cs_column (nlp_g (nlp ?w))) = Inr d1"
    using dot_total by blast
  have "fst (cs_column (nlp_lam_h (nlp ?w))) = fst (cs_column (nlp_h (nlp ?w)))"
    by (simp add: cs_column_def Nlp_wf_lengths(6) [OF wf])
  then obtain d2 where d2: "cs_dot (cs_column (nlp_lam_h (nlp ?w))) (cs_column (nlp_h (nlp ?w))) = Inr d2"
    using dot_total by blast
  obtain d3 where d3: "cs_dot ll hl = Inr d3"
    using dot_total [OF h_lbx_body_shapes [OF wf l]] by blast
  obtain d4 where d4: "cs_dot lu hu = Inr d4"
    using dot_total [OF h_ubx_body_shapes [OF wf u]] by blast
  have "lagrangian_fresh ?w = Inr (Add (Add (Add (Add f d1) d2) d3) d4)"
    by (simp add: lagrangian_fresh_def l u d1 d2 d3 d4 assms(2) ebind_def py_add_def)
  then have "snd (lagrangian ?w) = Inr (Add (Add (Add (Add f d1) d2) d3) d4)"
    by (simp add: lagrangian_value [OF v])
  then show ?thesis
    unfolding Let_def using d1 d2 d3 d4 by blast
qed

text \<open>The value of a dot product: the sum of the products, from the left, starting at zero.\<close>

lemma subsevalf_foldl_dot:
  "subsevalf A env (foldl (\<lambda>acc (p, q). Add acc (Mul p q)) e ps) =
     foldl (\<lambda>acc (p, q). plus_op A acc (times_op A (subsevalf A env p) (subsevalf A env q)))
       (subsevalf A env e) ps"
  by (induction ps arbitrary: e) (auto split: prod.splits)

lemma subsevalf_cs_dot:
  assumes "cs_dot a b = Inr d"
  shows "subsevalf A env d =
     foldl (\<lambda>acc (p, q). plus_op A acc (times_op A (subsevalf A env p) (subsevalf A env q)))
       (of_float A (Finite 0)) (zip (snd a) (snd b))"
  using assms by (auto simp: cs_dot_def subsevalf_foldl_dot split: if_splits)

text \<open>The Lagrangian of the example with two bounded rows, evaluated.\<close>

lemma ex_objective_f:
  "nlp_f (nlp (run (DifferentiableNlp_init Nlp_init None None) ex_objective)) =
     Some (Mul (Sym Var ''x'' 0) (Sym Var ''x'' 1))"
  by code_simp

lemma ex_lagrangian:
  "snd (lagrangian (run (DifferentiableNlp_init Nlp_init None None) ex_objective)) =
     Inr (Add (Add (Add (Add (Mul (Sym Var ''x'' 0) (Sym Var ''x'' 1)) (Const (Finite 0)))
        (Add (Const (Finite 0))
           (Mul (Sym LamH ''c1'' 0)
              (Sub (Add (Sym Var ''x'' 0) (Mul (Sym Var ''x'' 1) (Sym Var ''x'' 1)))
                 (Const (Finite 2))))))
        (Add (Add (Const (Finite 0))
           (Mul (Sym LamLb ''x'' 0) (Sub (Const (Finite 0)) (Sym Var ''x'' 0))))
           (Mul (Sym LamLb ''x'' 1) (Sub (Const (Finite 0)) (Sym Var ''x'' 1)))))
        (Const (Finite 0)))"
  by code_simp

text \<open>
  C2.  \<open>lagrangian\<close> should return the objective plus the four dot products for every
  wrapped NLP with a scalar objective.  On the NLP whose only variable is one scalar
  without bounds, with that scalar as objective, the body reads \<open>h_lbx\<close>, which raises
  (the failure of C3): the property raises \<open>RuntimeError\<close> and returns no expression.
\<close>

theorem lagrangian_raises_on_single_unbounded_scalar:
  "nlp_f (nlp ex_single_objective) = Some (Sym Var ''x'' 0) \<and>
   nlp_x (nlp ex_single_objective) = [Sym Var ''x'' 0] \<and>
   nlp_lbx (nlp ex_single_objective) = [NegInf] \<and>
   snd (lagrangian ex_single_objective) = Inl RuntimeError"
  by code_simp

section \<open>Cache invalidation\<close>

text \<open>
  C6.  A successful declaration of a variable through the wrapper empties the caches of
  \<open>h_lbx\<close>, \<open>h_ubx\<close>, \<open>lagrangian\<close> and \<open>primal_dual_variables\<close>; a successful
  declaration of a constraint empties those of \<open>lagrangian\<close> and
  \<open>primal_dual_variables\<close> and leaves those of \<open>h_lbx\<close> and \<open>h_ubx\<close> as they were; a
  successful \<open>minimize\<close> empties only that of \<open>lagrangian\<close>.
\<close>

theorem cache_invalidation:
  "(snd (variable w name shape lb ub) = Inr r1 \<longrightarrow>
      cached_h_lbx (fst (variable w name shape lb ub)) = None \<and>
      cached_h_ubx (fst (variable w name shape lb ub)) = None \<and>
      cached_lagrangian (fst (variable w name shape lb ub)) = None \<and>
      cached_primal_dual_variables (fst (variable w name shape lb ub)) = None) \<and>
   (snd (constraint w cname lhs op rhs) = Inr r2 \<longrightarrow>
      cached_lagrangian (fst (constraint w cname lhs op rhs)) = None \<and>
      cached_primal_dual_variables (fst (constraint w cname lhs op rhs)) = None \<and>
      cached_h_lbx (fst (constraint w cname lhs op rhs)) = cached_h_lbx w \<and>
      cached_h_ubx (fst (constraint w cname lhs op rhs)) = cached_h_ubx w) \<and>
   (snd (minimize w objective) = Inr r3 \<longrightarrow>
      cached_lagrangian (fst (minimize w objective)) = None \<and>
      cached_h_lbx (fst (minimize w objective)) = cached_h_lbx w \<and>
      cached_h_ubx (fst (minimize w objective)) = cached_h_ubx w \<and>
      cached_primal_dual_variables (fst (minimize w objective)) = cached_primal_dual_variables w)"
  by (simp add: variable_unfold constraint_unfold minimize_unfold split: sum.splits)

lemma ex_cached_caches:
  "cached_h_lbx ex_cached =
     Some (((2, 1), [Sub (Const (Finite 0)) (Sym Var ''x'' 0), Sub (Const (Finite 0)) (Sym Var ''x'' 1)]),
           ((2, 1), [Sym LamLb ''x'' 0, Sym LamLb ''x'' 1]))"
  "cached_h_ubx ex_cached = Some (((0, 1), []), ((0, 1), []))"
  "cached_lagrangian ex_cached \<noteq> None"
  by (code_simp+)

lemma ex_cached_calls:
  "snd (variable ex_cached ''y'' None None None) =
     Inr ([Sym Var ''y'' 0], [Sym LamLb ''y'' 0], [Sym LamUb ''y'' 0])"
  "snd (constraint ex_cached ''c2'' (Symbolic [Sym Var ''x'' 0]) ''=='' (Numeric [Finite 1])) =
     Inr ([Sub (Sym Var ''x'' 0) (Const (Finite 1))], [Sym LamG ''c2'' 0])"
  "snd (minimize ex_cached [Sym Var ''x'' 0]) = Inr ()"
  by (code_simp+)

theorem cache_invalidation_witness:
  "snd (variable ex_cached ''y'' None None None) =
     Inr ([Sym Var ''y'' 0], [Sym LamLb ''y'' 0], [Sym LamUb ''y'' 0]) \<and>
   snd (constraint ex_cached ''c2'' (Symbolic [Sym Var ''x'' 0]) ''=='' (Numeric [Finite 1])) =
     Inr ([Sub (Sym Var ''x'' 0) (Const (Finite 1))], [Sym LamG ''c2'' 0]) \<and>
   snd (minimize ex_cached [Sym Var ''x'' 0]) = Inr () \<and>
   cached_h_lbx ex_cached \<noteq> None \<and> cached_h_ubx ex_cached \<noteq> None \<and>
   cached_lagrangian ex_cached \<noteq> None \<and>
   cached_h_lbx (fst (variable ex_cached ''y'' None None None)) = None \<and>
   cached_h_ubx (fst (variable ex_cached ''y'' None None None)) = None \<and>
   cached_lagrangian (fst (variable ex_cached ''y'' None None None)) = None \<and>
   cached_primal_dual_variables (fst (variable ex_cached ''y'' None None None)) = None \<and>
   cached_lagrangian
     (fst (constraint ex_cached ''c2'' (Symbolic [Sym Var ''x'' 0]) ''=='' (Numeric [Finite 1]))) = None \<and>
   cached_h_lbx
     (fst (constraint ex_cached ''c2'' (Symbolic [Sym Var ''x'' 0]) ''=='' (Numeric [Finite 1]))) =
     cached_h_lbx ex_cached \<and>
   cached_h_ubx
     (fst (constraint ex_cached ''c2'' (Symbolic [Sym Var ''x'' 0]) ''=='' (Numeric [Finite 1]))) =
     cached_h_ubx ex_cached \<and>
   cached_lagrangian (fst (minimize ex_cached [Sym Var ''x'' 0])) = None \<and>
   cached_h_lbx (fst (minimize ex_cached [Sym Var ''x'' 0])) = cached_h_lbx ex_cached \<and>
   cached_h_ubx (fst (minimize ex_cached [Sym Var ''x'' 0])) = cached_h_ubx ex_cached"
  using cache_invalidation [of ex_cached "''y''" None None None
      "([Sym Var ''y'' 0], [Sym LamLb ''y'' 0], [Sym LamUb ''y'' 0])"
      "''c2''" "Symbolic [Sym Var ''x'' 0]" "''==''" "Numeric [Finite 1]"
      "([Sub (Sym Var ''x'' 0) (Const (Finite 1))], [Sym LamG ''c2'' 0])"
      "[Sym Var ''x'' 0]" "()"]
    ex_cached_calls ex_cached_caches
  by simp

section \<open>Memoization of the bound terms\<close>

text \<open>
  The claim that the pairs are recomputed when the simplify flag changes fails: in
  simplify mode a wrapper with one unbounded variable of two rows has an empty \<open>h_lbx\<close>;
  after the flag is switched off the property still returns the stored empty pair, where
  its body would now return the two rows.
\<close>

theorem simplify_flag_change_counterexample:
  "remove_reduntant_x_bounds ex_unbounded = True \<and>
   snd (h_lbx ex_unbounded) = Inr (((0, 1), []), ((0, 1), [])) \<and>
   remove_reduntant_x_bounds ex_flag_changed = False \<and>
   snd (h_lbx ex_flag_changed) = Inr (((0, 1), []), ((0, 1), [])) \<and>
   h_lbx_body ex_flag_changed =
     Inr (((2, 1), [Sub (Const NegInf) (Sym Var ''x'' 0), Sub (Const NegInf) (Sym Var ''x'' 1)]),
          ((2, 1), [Sym LamLb ''x'' 0, Sym LamLb ''x'' 1]))"
  by code_simp

lemma h_lbx_again:
  assumes "snd (h_lbx w) = Inr v"
  shows "cached_h_lbx (fst (h_lbx w)) = Some v"
  using assms by (auto simp: h_lbx_unfold split: option.splits sum.splits)

lemma h_ubx_again:
  assumes "snd (h_ubx w) = Inr v"
  shows "cached_h_ubx (fst (h_ubx w)) = Some v"
  using assms by (auto simp: h_ubx_unfold split: option.splits sum.splits)

text \<open>
  C7, as amended.  After a successful declaration of a variable through the wrapper the
  next read of \<open>h_lbx\<close> and of \<open>h_ubx\<close> runs the body on the new state.  Once a read has
  returned a pair, the next read returns the same stored pair and changes nothing, also
  when the simplify flag has been changed in between: a change of the flag invalidates
  nothing.
\<close>

theorem bound_terms_memoized:
  "(snd (variable w name shape lb ub) = Inr r \<longrightarrow>
      snd (h_lbx (fst (variable w name shape lb ub))) = h_lbx_body (fst (variable w name shape lb ub)) \<and>
      snd (h_ubx (fst (variable w name shape lb ub))) = h_ubx_body (fst (variable w name shape lb ub))) \<and>
   (snd (h_lbx w) = Inr vl \<longrightarrow>
      h_lbx (fst (h_lbx w)) = (fst (h_lbx w), Inr vl) \<and>
      h_lbx (set_remove_reduntant_x_bounds (fst (h_lbx w)) flag) =
        (set_remove_reduntant_x_bounds (fst (h_lbx w)) flag, Inr vl)) \<and>
   (snd (h_ubx w) = Inr vu \<longrightarrow>
      h_ubx (fst (h_ubx w)) = (fst (h_ubx w), Inr vu) \<and>
      h_ubx (set_remove_reduntant_x_bounds (fst (h_ubx w)) flag) =
        (set_remove_reduntant_x_bounds (fst (h_ubx w)) flag, Inr vu))"
proof (intro conjI impI)
  assume a: "snd (variable w name shape lb ub) = Inr r"
  let ?w = "fst (variable w name shape lb ub)"
  have c: "cached_h_lbx ?w = None" "cached_h_ubx ?w = None"
    using a by (simp_all add: variable_unfold split: sum.splits)
  show "snd (h_lbx ?w) = h_lbx_body ?w"
    by (simp add: h_lbx_unfold c split: sum.splits)
  show "snd (h_ubx ?w) = h_ubx_body ?w"
    by (simp add: h_ubx_unfold c split: sum.splits)
next
  assume a: "snd (h_lbx w) = Inr vl"
  note c = h_lbx_again [OF a]
  show "h_lbx (fst (h_lbx w)) = (fst (h_lbx w), Inr vl)"
    by (simp add: h_lbx_unfold [of "fst (h_lbx w)"] c)
  show "h_lbx (set_remove_reduntant_x_bounds (fst (h_lbx w)) flag) =
        (set_remove_reduntant_x_bounds (fst (h_lbx w)) flag, Inr vl)"
    unfolding set_remove_reduntant_x_bounds_def
    by (simp add: h_lbx_unfold [of "(fst (h_lbx w))\<lparr> remove_reduntant_x_bounds := flag \<rparr>"] c)
next
  assume a: "snd (h_ubx w) = Inr vu"
  note c = h_ubx_again [OF a]
  show "h_ubx (fst (h_ubx w)) = (fst (h_ubx w), Inr vu)"
    by (simp add: h_ubx_unfold [of "fst (h_ubx w)"] c)
  show "h_ubx (set_remove_reduntant_x_bounds (fst (h_ubx w)) flag) =
        (set_remove_reduntant_x_bounds (fst (h_ubx w)) flag, Inr vu)"
    unfolding set_remove_reduntant_x_bounds_def
    by (simp add: h_ubx_unfold [of "(fst (h_ubx w))\<lparr> remove_reduntant_x_bounds := flag \<rparr>"] c)
qed

lemma ex_pair_declared_facts:
  "snd (variable ex_pair_declared ''y'' None (Some (Scalar (Finite 0))) None) =
     Inr ([Sym Var ''y'' 0], [Sym LamLb ''y'' 0], [Sym LamUb ''y'' 0])"
  "snd (h_lbx ex_pair_declared) = Inr (((0, 1), []), ((0, 1), []))"
  "snd (h_ubx ex_pair_declared) = Inr (((0, 1), []), ((0, 1), []))"
  by (code_simp+)

theorem bound_terms_memoized_witness:
  "snd (variable ex_pair_declared ''y'' None (Some (Scalar (Finite 0))) None) =
     Inr ([Sym Var ''y'' 0], [Sym LamLb ''y'' 0], [Sym LamUb ''y'' 0]) \<and>
   snd (h_lbx ex_pair_declared) = Inr (((0, 1), []), ((0, 1), [])) \<and>
   snd (h_ubx ex_pair_declared) = Inr (((0, 1), []), ((0, 1), [])) \<and>
   snd (h_lbx (fst (variable ex_pair_declared ''y'' None (Some (Scalar (Finite 0))) None))) =
     h_lbx_body (fst (variable ex_pair_declared ''y'' None (Some (Scalar (Finite 0))) None)) \<and>
   h_lbx (fst (h_lbx ex_pair_declared)) =
     (fst (h_lbx ex_pair_declared), Inr (((0, 1), []), ((0, 1), []))) \<and>
   h_lbx (set_remove_reduntant_x_bounds (fst (h_lbx ex_pair_declared)) False) =
     (set_remove_reduntant_x_bounds (fst (h_lbx ex_pair_declared)) False,
      Inr (((0, 1), []), ((0, 1), []))) \<and>
   h_ubx (set_remove_reduntant_x_bounds (fst (h_ubx ex_pair_declared)) False) =
     (set_remove_reduntant_x_bounds (fst (h_ubx ex_pair_declared)) False,
      Inr (((0, 1), []), ((0, 1), [])))"
  using bound_terms_memoized [of ex_pair_declared "''y''" None "Some (Scalar (Finite 0))" None
      "([Sym Var ''y'' 0], [Sym LamLb ''y'' 0], [Sym LamUb ''y'' 0])"
      "(((0, 1), []), ((0, 1), []))" False "(((0, 1), []), ((0, 1), []))"]
    ex_pair_declared_facts
  by simp

section \<open>The barrier flag\<close>

text \<open>The flag commutes with every call: nothing reads it.\<close>

lemma h_lbx_barrier:
  "h_lbx (w\<lparr> include_barrier_term := v \<rparr>) =
     ((fst (h_lbx w))\<lparr> include_barrier_term := v \<rparr>, snd (h_lbx w))"
proof -
  have "h_lbx_body (w\<lparr> include_barrier_term := v \<rparr>) = h_lbx_body w"
    by (rule h_lbx_body_cong; simp)
  then show ?thesis
    by (simp add: h_lbx_unfold [of "w\<lparr> include_barrier_term := v \<rparr>"] h_lbx_unfold [of w]
        split: option.splits sum.splits)
qed

lemma h_ubx_barrier:
  "h_ubx (w\<lparr> include_barrier_term := v \<rparr>) =
     ((fst (h_ubx w))\<lparr> include_barrier_term := v \<rparr>, snd (h_ubx w))"
proof -
  have "h_ubx_body (w\<lparr> include_barrier_term := v \<rparr>) = h_ubx_body w"
    by (rule h_ubx_body_cong; simp)
  then show ?thesis
    by (simp add: h_ubx_unfold [of "w\<lparr> include_barrier_term := v \<rparr>"] h_ubx_unfold [of w]
        split: option.splits sum.splits)
qed

lemma lagrangian_body_barrier:
  "lagrangian_body (w\<lparr> include_barrier_term := v \<rparr>) =
     ((fst (lagrangian_body w))\<lparr> include_barrier_term := v \<rparr>, snd (lagrangian_body w))"
proof -
  obtain s1 r1 where h1: "h_lbx w = (s1, r1)" by (cases "h_lbx w")
  obtain s2 r2 where h2: "h_ubx s1 = (s2, r2)" by (cases "h_ubx s1")
  have b1: "h_lbx (w\<lparr> include_barrier_term := v \<rparr>) = (s1\<lparr> include_barrier_term := v \<rparr>, r1)"
    using h1 by (simp add: h_lbx_barrier)
  have b2: "h_ubx (s1\<lparr> include_barrier_term := v \<rparr>) = (s2\<lparr> include_barrier_term := v \<rparr>, r2)"
    using h2 by (simp add: h_ubx_barrier)
  show ?thesis
    by (simp add: lagrangian_body_def h1 h2 b1 b2 split: sum.splits prod.splits)
qed

lemma lagrangian_barrier:
  "lagrangian (w\<lparr> include_barrier_term := v \<rparr>) =
     ((fst (lagrangian w))\<lparr> include_barrier_term := v \<rparr>, snd (lagrangian w))"
  by (simp add: lagrangian_unfold [of "w\<lparr> include_barrier_term := v \<rparr>"] lagrangian_unfold [of w]
      lagrangian_body_barrier split: option.splits sum.splits)

lemma perform_barrier:
  "perform (w\<lparr> include_barrier_term := v \<rparr>) a = (perform w a)\<lparr> include_barrier_term := v \<rparr>"
  by (cases a)
     (simp_all add: h_lbx_barrier h_ubx_barrier lagrangian_barrier variable_unfold
       constraint_unfold minimize_unfold primal_dual_variables_unfold
       split: sum.splits option.splits)

lemma run_barrier:
  "run (w\<lparr> include_barrier_term := v \<rparr>) acts = (run w acts)\<lparr> include_barrier_term := v \<rparr>"
  unfolding run_def
  by (induction acts arbitrary: w) (simp_all add: perform_barrier)

lemma init_barrier:
  "DifferentiableNlp_init n s b =
     (DifferentiableNlp_init n s None)\<lparr> include_barrier_term := (case b of None \<Rightarrow> False | Some v \<Rightarrow> v) \<rparr>"
  by (simp add: DifferentiableNlp_init_def)

text \<open>
  For every NLP, simplify setting and sequence of calls, the wrapper built with
  \<open>include_barrier_term=True\<close> holds the flag, returns the same Lagrangian (or raises the
  same error) as the one built with \<open>False\<close>, and wraps the same NLP.
\<close>

lemma lagrangian_ignores_barrier_flag:
  "include_barrier_term (run (DifferentiableNlp_init n s (Some True)) acts) = True \<and>
   snd (lagrangian (run (DifferentiableNlp_init n s (Some True)) acts)) =
     snd (lagrangian (run (DifferentiableNlp_init n s (Some False)) acts)) \<and>
   nlp (fst (lagrangian (run (DifferentiableNlp_init n s (Some True)) acts))) =
     nlp (run (DifferentiableNlp_init n s (Some False)) acts)"
proof -
  let ?w = "run (DifferentiableNlp_init n s None) acts"
  have t: "run (DifferentiableNlp_init n s (Some True)) acts = ?w\<lparr> include_barrier_term := True \<rparr>"
    by (subst init_barrier) (simp add: run_barrier)
  have f: "run (DifferentiableNlp_init n s (Some False)) acts = ?w\<lparr> include_barrier_term := False \<rparr>"
    by (subst init_barrier) (simp add: run_barrier)
  show ?thesis
    unfolding t f by (simp add: lagrangian_barrier lagrangian_frame)
qed

text \<open>
  C5.  With \<open>include_barrier_term=True\<close> a new symbolic variable for the barrier should
  be introduced and enter the Lagrangian (the docstring of \<open>__init__\<close> promises the new
  variable as well).  The code stores the flag and reads it nowhere: on the example
  built with \<open>True\<close> the flag is set, the Lagrangian is the one of the wrapper built with
  \<open>False\<close>, the variables of the NLP are still \<open>x[0]\<close> and \<open>x[1]\<close>, and the Lagrangian
  is the objective plus the four dot products, over the symbols of the variables and the
  multipliers only.
\<close>

theorem include_barrier_term_adds_nothing:
  "include_barrier_term (run (DifferentiableNlp_init Nlp_init None (Some True)) ex_objective) = True \<and>
   snd (lagrangian (run (DifferentiableNlp_init Nlp_init None (Some True)) ex_objective)) =
     snd (lagrangian (run (DifferentiableNlp_init Nlp_init None (Some False)) ex_objective)) \<and>
   nlp_x (nlp (fst (lagrangian (run (DifferentiableNlp_init Nlp_init None (Some True)) ex_objective)))) =
     [Sym Var ''x'' 0, Sym Var ''x'' 1] \<and>
   snd (lagrangian (run (DifferentiableNlp_init Nlp_init None (Some True)) ex_objective)) =
     Inr (Add (Add (Add (Add (Mul (Sym Var ''x'' 0) (Sym Var ''x'' 1)) (Const (Finite 0)))
        (Add (Const (Finite 0))
           (Mul (Sym LamH ''c1'' 0)
              (Sub (Add (Sym Var ''x'' 0) (Mul (Sym Var ''x'' 1) (Sym Var ''x'' 1)))
                 (Const (Finite 2))))))
        (Add (Add (Const (Finite 0))
           (Mul (Sym LamLb ''x'' 0) (Sub (Const (Finite 0)) (Sym Var ''x'' 0))))
           (Mul (Sym LamLb ''x'' 1) (Sub (Const (Finite 0)) (Sym Var ''x'' 1)))))
        (Const (Finite 0)))"
  by code_simp

section \<open>Delegation\<close>

text \<open>
  C10.  \<open>variable\<close>, \<open>constraint\<close> and \<open>minimize\<close> of the wrapper pass their arguments
  unchanged to the method of the same name of the wrapped NLP: what they return or
  raise is what that method returns or raises, and the wrapped NLP afterwards is the
  NLP that method leaves.
\<close>

theorem wrapper_delegates:
  "snd (variable w name shape lb ub) = snd (Nlp_variable (nlp w) name shape lb ub) \<and>
   nlp (fst (variable w name shape lb ub)) = fst (Nlp_variable (nlp w) name shape lb ub) \<and>
   snd (constraint w cname lhs op rhs) = snd (Nlp_constraint (nlp w) cname lhs op rhs) \<and>
   nlp (fst (constraint w cname lhs op rhs)) = fst (Nlp_constraint (nlp w) cname lhs op rhs) \<and>
   snd (minimize w objective) = snd (Nlp_minimize (nlp w) objective) \<and>
   nlp (fst (minimize w objective)) = fst (Nlp_minimize (nlp w) objective)"
  by (simp add: variable_unfold constraint_unfold minimize_unfold split: sum.splits)

theorem wrapper_delegates_witness:
  "snd (variable ex_cached ''x'' None None None) = Inl NamingConflict \<and>
   snd (Nlp_variable (nlp ex_cached) ''x'' None None None) = Inl NamingConflict \<and>
   snd (variable ex_cached ''x'' None None None) = snd (Nlp_variable (nlp ex_cached) ''x'' None None None) \<and>
   nlp (fst (variable ex_cached ''x'' None None None)) = fst (Nlp_variable (nlp ex_cached) ''x'' None None None) \<and>
   snd (constraint ex_cached ''c2'' (Symbolic [Sym Var ''x'' 0]) ''<'' (Numeric [Finite 1])) =
     snd (Nlp_constraint (nlp ex_cached) ''c2'' (Symbolic [Sym Var ''x'' 0]) ''<'' (Numeric [Finite 1])) \<and>
   nlp (fst (constraint ex_cached ''c2'' (Symbolic [Sym Var ''x'' 0]) ''<'' (Numeric [Finite 1]))) =
     fst (Nlp_constraint (nlp ex_cached) ''c2'' (Symbolic [Sym Var ''x'' 0]) ''<'' (Numeric [Finite 1])) \<and>
   snd (minimize ex_cached [Sym Var ''x'' 0, Sym Var ''x'' 1]) =
     snd (Nlp_minimize (nlp ex_cached) [Sym Var ''x'' 0, Sym Var ''x'' 1]) \<and>
   nlp (fst (minimize ex_cached [Sym Var ''x'' 0, Sym Var ''x'' 1])) =
     fst (Nlp_minimize (nlp ex_cached) [Sym Var ''x'' 0, Sym Var ''x'' 1])"
proof -
  have a: "snd (variable ex_cached ''x'' None None None) = Inl NamingConflict"
    and b: "snd (Nlp_variable (nlp ex_cached) ''x'' None None None) = Inl NamingConflict"
    by (code_simp+)
  show ?thesis
    using a b wrapper_delegates [of ex_cached "''x''" None None None "''c2''"
        "Symbolic [Sym Var ''x'' 0]" "''<''" "Numeric [Finite 1]" "[Sym Var ''x'' 0, Sym Var ''x'' 1]"]
    by simp
qed

section \<open>Duplicate names\<close>

text \<open>
  C8.  For variables, parameters and constraints alike, a declaration under a name that
  is already registered for that kind fails with a naming conflict and returns the NLP
  as it was, so nothing is registered and no stacked vector changes its length; in
  particular a second declaration under the name of a successful first one fails.
\<close>

theorem duplicate_name_rejected:
  "(name \<in> set (map fst (nlp_vars n)) \<longrightarrow>
      Nlp_variable n name shape lb ub = (n, Inl NamingConflict)) \<and>
   (name \<in> set (map fst (nlp_pars n)) \<longrightarrow>
      Nlp_parameter n name shape = (n, Inl NamingConflict)) \<and>
   (name \<in> set (map fst (nlp_cons n)) \<longrightarrow>
      Nlp_constraint n name lhs op rhs = (n, Inl NamingConflict)) \<and>
   (snd (Nlp_variable n name shape lb ub) = Inr ra \<longrightarrow>
      Nlp_variable (fst (Nlp_variable n name shape lb ub)) name shape' lb' ub' =
        (fst (Nlp_variable n name shape lb ub), Inl NamingConflict)) \<and>
   (snd (Nlp_parameter n name shape) = Inr rb \<longrightarrow>
      Nlp_parameter (fst (Nlp_parameter n name shape)) name shape' =
        (fst (Nlp_parameter n name shape), Inl NamingConflict)) \<and>
   (snd (Nlp_constraint n name lhs op rhs) = Inr rc \<longrightarrow>
      Nlp_constraint (fst (Nlp_constraint n name lhs op rhs)) name lhs' op' rhs' =
        (fst (Nlp_constraint n name lhs op rhs), Inl NamingConflict))"
proof (intro conjI impI)
  assume "name \<in> set (map fst (nlp_vars n))"
  then show "Nlp_variable n name shape lb ub = (n, Inl NamingConflict)"
    by (simp add: Nlp_variable_def)
next
  assume "name \<in> set (map fst (nlp_pars n))"
  then show "Nlp_parameter n name shape = (n, Inl NamingConflict)"
    by (simp add: Nlp_parameter_def)
next
  assume "name \<in> set (map fst (nlp_cons n))"
  then show "Nlp_constraint n name lhs op rhs = (n, Inl NamingConflict)"
    by (simp add: Nlp_constraint_def)
next
  assume a: "snd (Nlp_variable n name shape lb ub) = Inr ra"
  have "name \<in> set (map fst (nlp_vars (fst (Nlp_variable n name shape lb ub))))"
    using a by (auto simp: Nlp_variable_def Let_def split: if_splits option.splits prod.splits)
  then show "Nlp_variable (fst (Nlp_variable n name shape lb ub)) name shape' lb' ub' =
        (fst (Nlp_variable n name shape lb ub), Inl NamingConflict)"
    by (simp add: Nlp_variable_def [of "fst (Nlp_variable n name shape lb ub)"])
next
  assume a: "snd (Nlp_parameter n name shape) = Inr rb"
  have "name \<in> set (map fst (nlp_pars (fst (Nlp_parameter n name shape))))"
    using a by (auto simp: Nlp_parameter_def Let_def split: if_splits)
  then show "Nlp_parameter (fst (Nlp_parameter n name shape)) name shape' =
        (fst (Nlp_parameter n name shape), Inl NamingConflict)"
    by (simp add: Nlp_parameter_def [of "fst (Nlp_parameter n name shape)"])
next
  assume a: "snd (Nlp_constraint n name lhs op rhs) = Inr rc"
  have "name \<in> set (map fst (nlp_cons (fst (Nlp_constraint n name lhs op rhs))))"
    using a unfolding Nlp_constraint_def Let_def
    by (simp split: if_splits option.splits prod.splits)
  then show "Nlp_constraint (fst (Nlp_constraint n name lhs op rhs)) name lhs' op' rhs' =
        (fst (Nlp_constraint n name lhs op rhs), Inl NamingConflict)"
    by (simp add: Nlp_constraint_def [of "fst (Nlp_constraint n name lhs op rhs)"])
qed

lemma ex_registered_names:
  "''a'' \<in> set (map fst (nlp_vars ex_registered))"
  "''a'' \<in> set (map fst (nlp_pars ex_registered))"
  "''a'' \<in> set (map fst (nlp_cons ex_registered))"
  by (code_simp+)

lemma ex_first_declarations:
  "snd (Nlp_variable Nlp_init ''a'' None None None) =
     Inr ([Sym Var ''a'' 0], [Sym LamLb ''a'' 0], [Sym LamUb ''a'' 0])"
  "snd (Nlp_parameter Nlp_init ''a'' None) = Inr [Sym Par ''a'' 0]"
  "snd (Nlp_constraint Nlp_init ''a'' (Symbolic [Sym Var ''a'' 0]) ''=='' (Numeric [Finite 1])) =
     Inr ([Sub (Sym Var ''a'' 0) (Const (Finite 1))], [Sym LamG ''a'' 0])"
  by (code_simp+)

theorem duplicate_name_rejected_witness:
  "''a'' \<in> set (map fst (nlp_vars ex_registered)) \<and>
   ''a'' \<in> set (map fst (nlp_pars ex_registered)) \<and>
   ''a'' \<in> set (map fst (nlp_cons ex_registered)) \<and>
   Nlp_variable ex_registered ''a'' (Some (2, 2)) None None = (ex_registered, Inl NamingConflict) \<and>
   Nlp_parameter ex_registered ''a'' (Some (2, 2)) = (ex_registered, Inl NamingConflict) \<and>
   Nlp_constraint ex_registered ''a'' (Symbolic [Sym Var ''a'' 0]) ''<='' (Numeric [Finite 5]) =
     (ex_registered, Inl NamingConflict) \<and>
   snd (Nlp_variable Nlp_init ''a'' None None None) =
     Inr ([Sym Var ''a'' 0], [Sym LamLb ''a'' 0], [Sym LamUb ''a'' 0]) \<and>
   snd (Nlp_parameter Nlp_init ''a'' None) = Inr [Sym Par ''a'' 0] \<and>
   snd (Nlp_constraint Nlp_init ''a'' (Symbolic [Sym Var ''a'' 0]) ''=='' (Numeric [Finite 1])) =
     Inr ([Sub (Sym Var ''a'' 0) (Const (Finite 1))], [Sym LamG ''a'' 0]) \<and>
   Nlp_variable (fst (Nlp_variable Nlp_init ''a'' None None None)) ''a'' None None None =
     (fst (Nlp_variable Nlp_init ''a'' None None None), Inl NamingConflict) \<and>
   Nlp_parameter (fst (Nlp_parameter Nlp_init ''a'' None)) ''a'' None =
     (fst (Nlp_parameter Nlp_init ''a'' None), Inl NamingConflict) \<and>
   Nlp_constraint
     (fst (Nlp_constraint Nlp_init ''a'' (Symbolic [Sym Var ''a'' 0]) ''=='' (Numeric [Finite 1])))
     ''a'' (Symbolic [Sym Var ''a'' 0]) ''=='' (Numeric [Finite 1]) =
     (fst (Nlp_constraint Nlp_init ''a'' (Symbolic [Sym Var ''a'' 0]) ''=='' (Numeric [Finite 1])),
      Inl NamingConflict)"
  using ex_registered_names ex_first_declarations
    duplicate_name_rejected [where name = "''a''" and n = ex_registered
      and shape = "Some (2, 2)" and lb = None and ub = None
      and lhs = "Symbolic [Sym Var ''a'' 0]" and op = "''<=''" and rhs = "Numeric [Finite 5]"]
    duplicate_name_rejected [where name = "''a''" and n = Nlp_init
      and shape = None and lb = None and ub = None
      and ra = "([Sym Var ''a'' 0], [Sym LamLb ''a'' 0], [Sym LamUb ''a'' 0])"
      and shape' = None and lb' = None and ub' = None
      and rb = "[Sym Par ''a'' 0]"
      and lhs = "Symbolic [Sym Var ''a'' 0]" and op = "''==''" and rhs = "Numeric [Finite 1]"
      and rc = "([Sub (Sym Var ''a'' 0) (Const (Finite 1))], [Sym LamG ''a'' 0])"
      and lhs' = "Symbolic [Sym Var ''a'' 0]" and op' = "''==''" and rhs' = "Numeric [Finite 1]"]
  by simp

section \<open>The solution view\<close>

lemma map_of_map_value:
  "map_of (map (\<lambda>(name, s). (name, g s)) xs) k = map_option g (map_of xs k)"
  by (induction xs) auto

text \<open>
  C9.  In every solution returned by \<open>solve\<close>, for every name in the registry of the
  variables, \<open>vals[name]\<close> is the value of \<open>Solution.value\<close> at the symbol the registry
  holds for that name.
\<close>

theorem solution_vals_agree_with_value:
  assumes "Nlp_solve solver n pars = Inr sol" and "map_of (nlp_vars n) name = Some s"
  shows "map_of (Solution_vals A sol) name = Some (Solution_value A sol s)"
proof -
  have "sol_vars sol = nlp_vars n"
    using assms(1)
    by (auto simp: Nlp_solve_def Let_def split: if_splits prod.splits)
  then show ?thesis
    using assms(2) by (simp add: Solution_vals_def map_of_map_value)
qed

lemma ex_solver_run:
  "Nlp_solve ex_solver (Nlp_init_solver (nlp ex_cached)) [] = Inr ex_solution"
proof -
  have a: "nlp_solver (Nlp_init_solver (nlp ex_cached)) = True"
    "nlp_pars (Nlp_init_solver (nlp ex_cached)) = []"
    "nlp_vars (Nlp_init_solver (nlp ex_cached)) = [(''x'', [Sym Var ''x'' 0, Sym Var ''x'' 1])]"
    by (code_simp+)
  show ?thesis
    by (simp add: Nlp_solve_def a ex_solver_def ex_solution_def)
qed

lemma ex_solver_registry:
  "map_of (nlp_vars (Nlp_init_solver (nlp ex_cached))) ''x'' = Some [Sym Var ''x'' 0, Sym Var ''x'' 1]"
  by code_simp

theorem solution_vals_agree_with_value_witness:
  "Nlp_solve ex_solver (Nlp_init_solver (nlp ex_cached)) [] = Inr ex_solution \<and>
   map_of (nlp_vars (Nlp_init_solver (nlp ex_cached))) ''x'' = Some [Sym Var ''x'' 0, Sym Var ''x'' 1] \<and>
   map_of (Solution_vals float_numeric ex_solution) ''x'' =
     Some (Solution_value float_numeric ex_solution [Sym Var ''x'' 0, Sym Var ''x'' 1])"
  by (rule conjI [OF ex_solver_run conjI [OF ex_solver_registry
        solution_vals_agree_with_value [OF ex_solver_run ex_solver_registry]]])

end
